theory Spec2Isabelle
  imports Main
begin

section \<open>JavaScript values the SDK computes with\<close>

text \<open>
  Token amounts are \<^verbatim>\<open>bigint\<close>: unbounded integers, modelled as \<^typ>\<open>int\<close>. Division
  of two bigints truncates toward zero and the remainder takes the sign of the dividend,
  unlike \<open>div\<close> and \<open>mod\<close> on \<^typ>\<open>int\<close>, which round down; both are written out.
  Every divisor in the modelled code is a power of ten, so the \<^verbatim>\<open>RangeError\<close> of a
  division by zero has no branch.
\<close>

definition bigint_div :: "int \<Rightarrow> int \<Rightarrow> int" where
  "bigint_div a b = sgn a * sgn b * (\<bar>a\<bar> div \<bar>b\<bar>)"

definition bigint_rem :: "int \<Rightarrow> int \<Rightarrow> int" where
  "bigint_rem a b = sgn a * (\<bar>a\<bar> mod \<bar>b\<bar>)"

text \<open>
  What a \<^verbatim>\<open>throw\<close> carries: an object of class \<^verbatim>\<open>Error\<close> or of one of its
  built-in subclasses, with its message, or some value that is not an \<^verbatim>\<open>Error\<close> at all.
  The messages of errors raised by the engine itself are V8's.
\<close>

datatype exn_class = Error | TypeError | RangeError | SyntaxError

datatype thrown = Exn exn_class string | NonErrorValue

text \<open>\<^verbatim>\<open>error instanceof Error ? error.message : "Unknown error"\<close>\<close>

fun message_or_unknown :: "thrown \<Rightarrow> string" where
  "message_or_unknown (Exn _ m) = m"
| "message_or_unknown NonErrorValue = ''Unknown error''"

subsection \<open>Decimal digits and \<^verbatim>\<open>toString\<close>\<close>

definition digit_char :: "int \<Rightarrow> char" where
  "digit_char k = ''0123456789'' ! nat k"

definition is_digit :: "char \<Rightarrow> bool" where
  "is_digit c \<longleftrightarrow> c \<in> set ''0123456789''"

definition digit_val :: "char \<Rightarrow> int" where
  "digit_val c = of_char c - 48"

text \<open>
  The decimal numeral of a non-negative integer, most significant digit first, without
  leading zeros.
\<close>

function digits_toString :: "int \<Rightarrow> string" where
  "digits_toString n =
     (if n < 10 then [digit_char n] else digits_toString (n div 10) @ [digit_char (n mod 10)])"
  by pat_completeness auto
termination
  by (relation "measure nat") auto

declare digits_toString.simps [simp del]

text \<open>\<^verbatim>\<open>BigInt.prototype.toString()\<close>, and a chain id in a template literal.\<close>

definition bigint_toString :: "int \<Rightarrow> string" where
  "bigint_toString i = (if i < 0 then CHR ''-'' # digits_toString (- i) else digits_toString i)"

text \<open>The number a string of decimal digits denotes.\<close>

definition digits_value :: "string \<Rightarrow> int" where
  "digits_value s = foldl (\<lambda>acc c. 10 * acc + digit_val c) 0 s"

subsection \<open>\<^verbatim>\<open>BigInt(string)\<close>\<close>

text \<open>
  The constructor applied to a string (ECMAScript \<^verbatim>\<open>StringToBigInt\<close>): white space is
  trimmed at both ends; the empty string is 0; otherwise the string is a run of decimal
  digits with an optional sign, or an unsigned binary, octal or hexadecimal literal
  (\<^verbatim>\<open>0b\<close>, \<^verbatim>\<open>0o\<close>, \<^verbatim>\<open>0x\<close>); anything else raises \<^verbatim>\<open>SyntaxError\<close>. Characters are code
  units below 256, so the white space is TAB, LF, VT, FF, CR, SP and NBSP.
\<close>

definition is_space :: "char \<Rightarrow> bool" where
  "is_space c \<longleftrightarrow> (of_char c :: nat) \<in> {9, 10, 11, 12, 13, 32, 160}"

definition trim :: "string \<Rightarrow> string" where
  "trim s = rev (dropWhile is_space (rev (dropWhile is_space s)))"

definition radix_digit :: "char \<Rightarrow> int option" where
  "radix_digit c =
     (let n = (of_char c :: int) in
      if 48 \<le> n \<and> n \<le> 57 then Some (n - 48)
      else if 97 \<le> n \<and> n \<le> 102 then Some (n - 87)
      else if 65 \<le> n \<and> n \<le> 70 then Some (n - 55)
      else None)"

definition radix_value :: "int \<Rightarrow> string \<Rightarrow> int option" where
  "radix_value b s =
     (if s \<noteq> [] \<and> list_all (\<lambda>c. case radix_digit c of None \<Rightarrow> False | Some v \<Rightarrow> v < b) s
      then Some (foldl (\<lambda>acc c. b * acc + (case radix_digit c of None \<Rightarrow> 0 | Some v \<Rightarrow> v)) 0 s)
      else None)"

definition all_digits :: "string \<Rightarrow> bool" where
  "all_digits s = list_all is_digit s"

definition cannot_convert :: "string \<Rightarrow> thrown" where
  "cannot_convert s = Exn SyntaxError (''Cannot convert '' @ s @ '' to a BigInt'')"

definition BigInt_of_string :: "string \<Rightarrow> thrown + int" where
  "BigInt_of_string s =
     (let t = trim s in
      if t = [] then Inr 0
      else if all_digits t then Inr (digits_value t)
      else if hd t = CHR ''+'' \<and> tl t \<noteq> [] \<and> all_digits (tl t) then Inr (digits_value (tl t))
      else if hd t = CHR ''-'' \<and> tl t \<noteq> [] \<and> all_digits (tl t) then Inr (- digits_value (tl t))
      else if take 2 t \<in> {''0x'', ''0X''} then
        (case radix_value 16 (drop 2 t) of Some v \<Rightarrow> Inr v | None \<Rightarrow> Inl (cannot_convert s))
      else if take 2 t \<in> {''0o'', ''0O''} then
        (case radix_value 8 (drop 2 t) of Some v \<Rightarrow> Inr v | None \<Rightarrow> Inl (cannot_convert s))
      else if take 2 t \<in> {''0b'', ''0B''} then
        (case radix_value 2 (drop 2 t) of Some v \<Rightarrow> Inr v | None \<Rightarrow> Inl (cannot_convert s))
      else Inl (cannot_convert s))"

subsection \<open>String methods\<close>

text \<open>\<^verbatim>\<open>s.split(c)\<close> for a one-character separator: never empty, \<^verbatim>\<open>"".split(c)\<close> is \<^verbatim>\<open>[""]\<close>.\<close>

fun split :: "char \<Rightarrow> string \<Rightarrow> string list" where
  "split sep [] = [[]]"
| "split sep (c # cs) =
     (if c = sep then [] # split sep cs
      else (case split sep cs of [] \<Rightarrow> [[c]] | p # ps \<Rightarrow> (c # p) # ps))"

text \<open>\<^verbatim>\<open>s.padStart(n, "0")\<close>, \<^verbatim>\<open>s.padEnd(n, "0")\<close>, \<^verbatim>\<open>s.replace(/0+$/, "")\<close>.\<close>

definition padStart0 :: "string \<Rightarrow> nat \<Rightarrow> string" where
  "padStart0 s n = replicate (n - length s) CHR ''0'' @ s"

definition padEnd0 :: "string \<Rightarrow> nat \<Rightarrow> string" where
  "padEnd0 s n = s @ replicate (n - length s) CHR ''0''"

definition strip_trailing_zeros :: "string \<Rightarrow> string" where
  "strip_trailing_zeros s = rev (dropWhile (\<lambda>c. c = CHR ''0'') (rev s))"

text \<open>\<^verbatim>\<open>s.slice(0, n)\<close>: a negative \<open>n\<close> counts from the end.\<close>

definition slice0 :: "string \<Rightarrow> int \<Rightarrow> string" where
  "slice0 s n = (if n < 0 then take (nat (int (length s) + n)) s else take (nat n) s)"

text \<open>\<^verbatim>\<open>parts[i] || dflt\<close>: a missing element and the empty string both give the default.\<close>

definition nth_or :: "string list \<Rightarrow> nat \<Rightarrow> string \<Rightarrow> string" where
  "nth_or parts i dflt = (if i < length parts \<and> parts ! i \<noteq> [] then parts ! i else dflt)"

section \<open>Chain registry (constants.ts) and protocol type (types.ts)\<close>

datatype BridgeProtocol = AXELAR | LAYERZERO

record NativeCurrency =
  currency_name :: string
  symbol :: string
  currency_decimals :: int

record BridgeChain =
  chain_id :: int
  chain_name :: string
  chain_decimals :: int
  nativeCurrency :: NativeCurrency

text \<open>
  The three revisions of constants.ts agree on every field below; they differ in the
  token address only, which none of the modelled functions reads.
\<close>

definition SUPPORTED_CHAINS :: "int \<Rightarrow> BridgeChain option" where
  "SUPPORTED_CHAINS c =
     (if c = 42220 then Some \<lparr>chain_id = 42220, chain_name = ''Celo'', chain_decimals = 18,
          nativeCurrency = \<lparr>currency_name = ''Celo'', symbol = ''CELO'', currency_decimals = 18\<rparr>\<rparr>
      else if c = 122 then Some \<lparr>chain_id = 122, chain_name = ''Fuse'', chain_decimals = 2,
          nativeCurrency = \<lparr>currency_name = ''Fuse'', symbol = ''FUSE'', currency_decimals = 18\<rparr>\<rparr>
      else if c = 1 then Some \<lparr>chain_id = 1, chain_name = ''Ethereum'', chain_decimals = 2,
          nativeCurrency = \<lparr>currency_name = ''Ethereum'', symbol = ''ETH'', currency_decimals = 18\<rparr>\<rparr>
      else if c = 50 then Some \<lparr>chain_id = 50, chain_name = ''XDC'', chain_decimals = 18,
          nativeCurrency = \<lparr>currency_name = ''XDC Network'', symbol = ''XDC'', currency_decimals = 18\<rparr>\<rparr>
      else None)"

definition NORMALIZED_DECIMALS :: int where
  "NORMALIZED_DECIMALS = 18"

text \<open>
  \<^verbatim>\<open>BRIDGE_CONTRACT_ADDRESSES\<close>: one address for all four chains (a placeholder string
  in one revision, which is as truthy as the deployed address).
\<close>

definition BRIDGE_CONTRACT_ADDRESSES :: "int \<Rightarrow> string option" where
  "BRIDGE_CONTRACT_ADDRESSES c =
     (if c \<in> {42220, 122, 1, 50} then Some ''0xa3247276dbcc76dd7705273f766eb3e8a5ecf4a5'' else None)"

section \<open>Decimal converter (utils/decimals.ts)\<close>

text \<open>
  \<^verbatim>\<open>SUPPORTED_CHAINS[chainId]?.decimals || NORMALIZED_DECIMALS\<close>: an unknown chain and a
  chain whose decimals are 0 both fall back to 18.
\<close>

definition getChainDecimals :: "int \<Rightarrow> int" where
  "getChainDecimals chainId =
     (case SUPPORTED_CHAINS chainId of
        None \<Rightarrow> NORMALIZED_DECIMALS
      | Some ch \<Rightarrow> if chain_decimals ch = 0 then NORMALIZED_DECIMALS else chain_decimals ch)"

definition normalizeAmount :: "int \<Rightarrow> int \<Rightarrow> int" where
  "normalizeAmount amount fromChainId =
     (let fromDecimals = getChainDecimals fromChainId in
      if fromDecimals = NORMALIZED_DECIMALS then amount
      else if fromDecimals > NORMALIZED_DECIMALS then
        bigint_div amount (10 ^ nat (fromDecimals - NORMALIZED_DECIMALS))
      else amount * 10 ^ nat (NORMALIZED_DECIMALS - fromDecimals))"

definition denormalizeAmount :: "int \<Rightarrow> int \<Rightarrow> int" where
  "denormalizeAmount amount toChainId =
     (let toDecimals = getChainDecimals toChainId in
      if toDecimals = NORMALIZED_DECIMALS then amount
      else if toDecimals > NORMALIZED_DECIMALS then
        amount * 10 ^ nat (toDecimals - NORMALIZED_DECIMALS)
      else bigint_div amount (10 ^ nat (NORMALIZED_DECIMALS - toDecimals)))"

text \<open>
  \<^verbatim>\<open>10n ** BigInt(decimals)\<close> raises \<^verbatim>\<open>RangeError\<close> for a negative exponent; a
  \<open>decimals\<close> that is not an integer is outside the model.
\<close>

definition pow10 :: "int \<Rightarrow> thrown + int" where
  "pow10 decimals =
     (if decimals < 0 then Inl (Exn RangeError ''Exponent must be non-negative'')
      else Inr (10 ^ nat decimals))"

definition formatAmount :: "int \<Rightarrow> int \<Rightarrow> thrown + string" where
  "formatAmount amount decimals =
     (case pow10 decimals of
        Inl e \<Rightarrow> Inl e
      | Inr divisor \<Rightarrow>
          (let whole = bigint_div amount divisor;
               fractional = bigint_rem amount divisor
           in if fractional = 0 then Inr (bigint_toString whole)
              else
                (let fractionalStr = padStart0 (bigint_toString fractional) (nat decimals);
                     trimmedFractional = strip_trailing_zeros fractionalStr
                 in Inr (bigint_toString whole @ ''.'' @ trimmedFractional))))"

definition parseAmount :: "string \<Rightarrow> int \<Rightarrow> thrown + int" where
  "parseAmount amount decimals =
     (if amount = [] \<or> amount = ''0'' then Inr 0
      else
        (let parts = split CHR ''.'' amount;
             wholeStr = nth_or parts 0 ''0'';
             fractionalStr0 = nth_or parts 1 [];
             fractionalStr =
               (if int (length fractionalStr0) > decimals then slice0 fractionalStr0 decimals
                else padEnd0 fractionalStr0 (nat decimals))
         in case BigInt_of_string wholeStr of
              Inl e \<Rightarrow> Inl e
            | Inr whole \<Rightarrow>
                (case BigInt_of_string (if fractionalStr = [] then ''0'' else fractionalStr) of
                   Inl e \<Rightarrow> Inl e
                 | Inr fractional \<Rightarrow>
                     (case pow10 decimals of
                        Inl e \<Rightarrow> Inl e
                      | Inr divisor \<Rightarrow> Inr (whole * divisor + fractional)))))"

section \<open>Fee estimator (utils/fees.ts)\<close>

text \<open>
  One \<^verbatim>\<open>fetch\<close> either rejects, or resolves to a response with its \<^verbatim>\<open>ok\<close> flag, its
  \<^verbatim>\<open>statusText\<close> and what \<^verbatim>\<open>response.json()\<close> will do: throw, or return the decoded body.
\<close>

datatype 'a http = FetchRejects thrown | Response bool string "thrown + 'a"

text \<open>
  \<^verbatim>\<open>GoodServerFeeResponse\<close>: protocol name to route key to fee string. The fee server is
  the sequence of outcomes of the requests made to it, with the number of requests made
  so far.
\<close>

type_synonym GoodServerFeeResponse = "string \<Rightarrow> (string \<Rightarrow> string option) option"

record fee_server =
  responses :: "nat \<Rightarrow> GoodServerFeeResponse http"
  requests :: nat

record FeeEstimate =
  fee :: int
  feeInNative :: string
  protocol_of :: BridgeProtocol

definition protocol_name :: "BridgeProtocol \<Rightarrow> string" where
  "protocol_name p = (case p of AXELAR \<Rightarrow> ''AXELAR'' | LAYERZERO \<Rightarrow> ''LAYERZERO'')"

definition fee_estimation_failed :: "thrown \<Rightarrow> thrown" where
  "fee_estimation_failed e = Exn Error (''Fee estimation failed: '' @ message_or_unknown e)"

definition fetchFeeEstimates :: "fee_server \<Rightarrow> (thrown + GoodServerFeeResponse) \<times> fee_server" where
  "fetchFeeEstimates srv =
     (case responses srv (requests srv) of
        FetchRejects e \<Rightarrow> Inl (fee_estimation_failed e)
      | Response ok statusText body \<Rightarrow>
          if \<not> ok then
            Inl (fee_estimation_failed
                   (Exn Error (''Failed to fetch fee estimates: '' @ statusText)))
          else (case body of Inl e \<Rightarrow> Inl (fee_estimation_failed e) | Inr feeData \<Rightarrow> Inr feeData),
      srv\<lparr>requests := Suc (requests srv)\<rparr>)"

text \<open>
  \<^verbatim>\<open>parseNativeFee\<close> computes in double-precision floating point, which has no model
  here. The two places where the result depends on it are parameters: whether
  \<^verbatim>\<open>parseFloat(amountStr)\<close> is NaN, and the value of
  \<^verbatim>\<open>Math.floor(parseFloat(amountStr) * 10 ** decimals)\<close>, an integer unless it is NaN or
  infinite, in which case \<^verbatim>\<open>BigInt\<close> raises \<^verbatim>\<open>RangeError\<close>.
\<close>

record float_ops =
  parseFloat_isNaN :: "string \<Rightarrow> bool"
  floor_scaled :: "string \<Rightarrow> int \<Rightarrow> int option"

definition parseNativeFee :: "float_ops \<Rightarrow> string \<Rightarrow> int \<Rightarrow> thrown + int" where
  "parseNativeFee fl feeString chainId =
     (let amountStr = (case split CHR '' '' feeString of [] \<Rightarrow> [] | a # _ \<Rightarrow> a) in
      if amountStr = [] then Inl (Exn Error ''Invalid fee format'')
      else
        (let decimals =
               (case SUPPORTED_CHAINS chainId of
                  None \<Rightarrow> 18
                | Some ch \<Rightarrow> if chain_decimals ch = 0 then 18 else chain_decimals ch)
         in if parseFloat_isNaN fl amountStr then Inl (Exn Error ''Invalid fee amount'')
            else (case floor_scaled fl amountStr decimals of
                    None \<Rightarrow>
                      Inl (Exn RangeError ''The number cannot be converted to a BigInt because it is not an integer'')
                  | Some weiAmount \<Rightarrow> Inr weiAmount)))"

definition getChainName :: "int \<Rightarrow> thrown + string" where
  "getChainName chainId =
     (if chainId = 42220 then Inr ''CELO''
      else if chainId = 122 then Inr ''FUSE''
      else if chainId = 1 then Inr ''ETH''
      else if chainId = 50 then Inr ''XDC''
      else Inl (Exn Error (''Unsupported chain ID: '' @ bigint_toString chainId)))"

text \<open>
  \<^verbatim>\<open>BigInt(Math.floor(FEE_MULTIPLIER * 100))\<close> with \<^verbatim>\<open>FEE_MULTIPLIER = 1.1\<close>: the
  double product is 110.00000000000001, whose floor is 110.
\<close>

definition FEE_MULTIPLIER_PERCENT :: int where
  "FEE_MULTIPLIER_PERCENT = 110"

definition no_route :: "string \<Rightarrow> string \<Rightarrow> thrown" where
  "no_route fromChainName toChainName =
     Exn Error (''No fee data available for route: '' @ fromChainName @ '' to '' @ toChainName)"

text \<open>\<^verbatim>\<open>getFeeEstimate\<close> after the fee table has been fetched.\<close>

definition getFeeEstimate_from ::
  "float_ops \<Rightarrow> GoodServerFeeResponse \<Rightarrow> int \<Rightarrow> int \<Rightarrow> BridgeProtocol \<Rightarrow> thrown + FeeEstimate" where
  "getFeeEstimate_from fl feeData fromChainId toChainId protocol =
     (case feeData (protocol_name protocol) of
        None \<Rightarrow>
          Inl (Exn Error (''No fee data available for protocol: '' @ protocol_name protocol))
      | Some protocolData \<Rightarrow>
          (case getChainName fromChainId of
             Inl e \<Rightarrow> Inl e
           | Inr fromChainName \<Rightarrow>
               (case getChainName toChainId of
                  Inl e \<Rightarrow> Inl e
                | Inr toChainName \<Rightarrow>
                    (let protocolPrefix = (if protocol = AXELAR then ''AXL'' else ''LZ'');
                         routeKey = protocolPrefix @ ''_'' @ fromChainName @ ''_TO_'' @ toChainName
                     in case protocolData routeKey of
                          None \<Rightarrow> Inl (no_route fromChainName toChainName)
                        | Some feeString \<Rightarrow>
                            if feeString = [] then Inl (no_route fromChainName toChainName)
                            else
                              (case parseNativeFee fl feeString fromChainId of
                                 Inl e \<Rightarrow> Inl e
                               | Inr parsedFee \<Rightarrow>
                                   Inr \<lparr>fee = bigint_div (parsedFee * FEE_MULTIPLIER_PERCENT) 100,
                                        feeInNative = feeString,
                                        protocol_of = protocol\<rparr>)))))"

definition getFeeEstimate ::
  "float_ops \<Rightarrow> fee_server \<Rightarrow> int \<Rightarrow> int \<Rightarrow> BridgeProtocol \<Rightarrow> (thrown + FeeEstimate) \<times> fee_server" where
  "getFeeEstimate fl srv fromChainId toChainId protocol =
     (case fetchFeeEstimates srv of
        (Inl e, srv') \<Rightarrow> (Inl e, srv')
      | (Inr feeData, srv') \<Rightarrow>
          (getFeeEstimate_from fl feeData fromChainId toChainId protocol, srv'))"

section \<open>The SDK class (viem-sdk.ts, and its other revision)\<close>

text \<open>
  The fields of \<^verbatim>\<open>BridgingSDK\<close> that the modelled methods read or write. The constructor
  and \<^verbatim>\<open>setWalletClient\<close> admit supported chains only, but the methods look the chain up
  again and that lookup is modelled as written.
\<close>

record BridgingSDK =
  currentChainId :: int
  fees :: "GoodServerFeeResponse option"

record CanBridgeResult =
  isWithinLimit :: bool
  error :: "string option"

definition not_deployed :: "int \<Rightarrow> string" where
  "not_deployed chainId = ''Bridge contract not deployed on chain '' @ bigint_toString chainId"

text \<open>
  The body of the \<^verbatim>\<open>try\<close> block of \<^verbatim>\<open>canBridge\<close>. \<^verbatim>\<open>readContract\<close> is the chain
  client's read of the contract's \<^verbatim>\<open>canBridge(from, normalizedAmount)\<close>: it throws
  (a revert, an RPC error) or returns the pair the contract returns.
\<close>

definition canBridge_try ::
  "BridgingSDK \<Rightarrow> (string \<Rightarrow> string \<Rightarrow> int \<Rightarrow> thrown + bool \<times> string) \<Rightarrow> string \<Rightarrow> int
     \<Rightarrow> thrown + CanBridgeResult" where
  "canBridge_try sdk readContract from amount =
     (case BRIDGE_CONTRACT_ADDRESSES (currentChainId sdk) of
        None \<Rightarrow> Inr \<lparr>isWithinLimit = False, error = Some (not_deployed (currentChainId sdk))\<rparr>
      | Some contractAddress \<Rightarrow>
          if contractAddress = [] then
            Inr \<lparr>isWithinLimit = False, error = Some (not_deployed (currentChainId sdk))\<rparr>
          else
            (let normalizedAmount = normalizeAmount amount (currentChainId sdk) in
             case readContract contractAddress from normalizedAmount of
               Inl e \<Rightarrow> Inl e
             | Inr (withinLimit, canBridgeError) \<Rightarrow>
                 Inr \<lparr>isWithinLimit = withinLimit,
                      error = (if withinLimit then None else Some canBridgeError)\<rparr>))"

text \<open>\<^verbatim>\<open>canBridge\<close>, the same text in both revisions of the class.\<close>

definition canBridge ::
  "BridgingSDK \<Rightarrow> (string \<Rightarrow> string \<Rightarrow> int \<Rightarrow> thrown + bool \<times> string) \<Rightarrow> string \<Rightarrow> int \<Rightarrow> int
     \<Rightarrow> thrown + CanBridgeResult" where
  "canBridge sdk readContract from amount targetChainId =
     (case SUPPORTED_CHAINS targetChainId of
        None \<Rightarrow>
          Inr \<lparr>isWithinLimit = False,
               error = Some (''Unsupported target chain: '' @ bigint_toString targetChainId)\<rparr>
      | Some _ \<Rightarrow>
          (case canBridge_try sdk readContract from amount of
             Inl e \<Rightarrow>
               Inr \<lparr>isWithinLimit = False,
                    error = Some (''Failed to check bridge limits: '' @ message_or_unknown e)\<rparr>
           | Inr r \<Rightarrow> Inr r))"

text \<open>\<^verbatim>\<open>initialize\<close>: fetch the fee table and cache it.\<close>

definition initialize :: "BridgingSDK \<Rightarrow> fee_server \<Rightarrow> (thrown + unit) \<times> BridgingSDK \<times> fee_server" where
  "initialize sdk srv =
     (case fetchFeeEstimates srv of
        (Inl e, srv') \<Rightarrow> (Inl e, sdk, srv')
      | (Inr feeData, srv') \<Rightarrow> (Inr (), sdk\<lparr>fees := Some feeData\<rparr>, srv'))"

definition undefined_name :: thrown where
  "undefined_name = Exn TypeError ''Cannot read properties of undefined (reading 'name')''"

definition axelar_not_supported :: "string \<Rightarrow> string \<Rightarrow> thrown" where
  "axelar_not_supported a b = Exn Error (''Axelar bridging is not supported for '' @ a @ '' or '' @ b)"

text \<open>\<^verbatim>\<open>estimateFee\<close> of viem-sdk.ts, with its protocol support validation.\<close>

definition estimateFee ::
  "float_ops \<Rightarrow> BridgingSDK \<Rightarrow> fee_server \<Rightarrow> int \<Rightarrow> BridgeProtocol
     \<Rightarrow> (thrown + FeeEstimate) \<times> BridgingSDK \<times> fee_server" where
  "estimateFee fl sdk srv targetChainId protocol =
     (if protocol = AXELAR \<and>
         (currentChainId sdk = 50 \<or> currentChainId sdk = 122 \<or> targetChainId = 50 \<or> targetChainId = 122)
      then
        (case SUPPORTED_CHAINS (currentChainId sdk) of
           None \<Rightarrow> (Inl undefined_name, sdk, srv)
         | Some a \<Rightarrow>
             (case SUPPORTED_CHAINS targetChainId of
                None \<Rightarrow> (Inl undefined_name, sdk, srv)
              | Some b \<Rightarrow> (Inl (axelar_not_supported (chain_name a) (chain_name b)), sdk, srv)))
      else
        (case (if fees sdk = None then initialize sdk srv else (Inr (), sdk, srv)) of
           (Inl e, sdk', srv') \<Rightarrow> (Inl e, sdk', srv')
         | (Inr _, sdk', srv') \<Rightarrow>
             (case getFeeEstimate fl srv' (currentChainId sdk') targetChainId protocol of
                (r, srv'') \<Rightarrow> (r, sdk', srv''))))"

text \<open>\<^verbatim>\<open>estimateFee\<close> of the other revision: no validation and no cache.\<close>

definition estimateFee_part003 ::
  "float_ops \<Rightarrow> BridgingSDK \<Rightarrow> fee_server \<Rightarrow> int \<Rightarrow> BridgeProtocol
     \<Rightarrow> (thrown + FeeEstimate) \<times> BridgingSDK \<times> fee_server" where
  "estimateFee_part003 fl sdk srv targetChainId protocol =
     (case getFeeEstimate fl srv (currentChainId sdk) targetChainId protocol of
        (r, srv') \<Rightarrow> (r, sdk, srv'))"

subsection \<open>\<^verbatim>\<open>bridgeTo\<close> and the event parsers\<close>

text \<open>
  \<^verbatim>\<open>bridgeTo\<close> builds the options of \<^verbatim>\<open>bridgeInternal\<close>, which passes \<^verbatim>\<open>opts.args\<close>
  on unchanged as the arguments of the contract call. The argument array of the
  contract's \<^verbatim>\<open>bridgeTo\<close> is the recipient, the target chain, the amount and the number
  of the bridge.
\<close>

record bridgeTo_args =
  arg_target :: string
  arg_targetChainId :: int
  arg_amount :: int
  arg_bridge :: int

record bridge_opts =
  opts_targetChainId :: int
  opts_protocol :: BridgeProtocol
  opts_msgValue :: "int option"
  opts_fn :: string
  opts_args :: bridgeTo_args

text \<open>viem-sdk.ts: \<^verbatim>\<open>protocol === "AXELAR" ? 0 : 1\<close>.\<close>

definition bridgeTo :: "string \<Rightarrow> int \<Rightarrow> int \<Rightarrow> BridgeProtocol \<Rightarrow> int option \<Rightarrow> bridge_opts" where
  "bridgeTo target targetChainId amount protocol msgValue =
     \<lparr>opts_targetChainId = targetChainId,
      opts_protocol = protocol,
      opts_msgValue = msgValue,
      opts_fn = ''bridgeTo'',
      opts_args = \<lparr>arg_target = target, arg_targetChainId = targetChainId, arg_amount = amount,
                   arg_bridge = (if protocol = AXELAR then 0 else 1)\<rparr>\<rparr>"

text \<open>The other revision: \<^verbatim>\<open>protocol === "LAYERZERO" ? 0 : 1\<close>.\<close>

definition bridgeTo_part003 :: "string \<Rightarrow> int \<Rightarrow> int \<Rightarrow> BridgeProtocol \<Rightarrow> int option \<Rightarrow> bridge_opts" where
  "bridgeTo_part003 target targetChainId amount protocol msgValue =
     \<lparr>opts_targetChainId = targetChainId,
      opts_protocol = protocol,
      opts_msgValue = msgValue,
      opts_fn = ''bridgeTo'',
      opts_args = \<lparr>arg_target = target, arg_targetChainId = targetChainId, arg_amount = amount,
                   arg_bridge = (if protocol = LAYERZERO then 0 else 1)\<rparr>\<rparr>"

text \<open>A decoded \<^verbatim>\<open>BridgeRequest\<close> log as the chain client returns it, and the typed event.\<close>

record BridgeRequest_log =
  log_transactionHash :: string
  log_blockNumber :: int
  log_address :: string
  log_from :: string
  log_to :: string
  log_normalizedAmount :: int
  log_targetChainId :: int
  log_timestamp :: int
  log_bridge :: int
  log_id :: int

record BridgeRequestEvent =
  transactionHash :: string
  blockNumber :: int
  address :: string
  args_from :: string
  args_to :: string
  args_amount :: int
  args_targetChainId :: int
  args_timestamp :: int
  args_bridge :: BridgeProtocol
  args_id :: int

text \<open>The callback that \<^verbatim>\<open>getBridgeRequests\<close> maps over the logs, in viem-sdk.ts.\<close>

definition BridgeRequest_of_log :: "BridgeRequest_log \<Rightarrow> BridgeRequestEvent" where
  "BridgeRequest_of_log log =
     \<lparr>transactionHash = log_transactionHash log,
      blockNumber = log_blockNumber log,
      address = log_address log,
      args_from = log_from log,
      args_to = log_to log,
      args_amount = log_normalizedAmount log,
      args_targetChainId = log_targetChainId log,
      args_timestamp = log_timestamp log,
      args_bridge = (if log_bridge log = 0 then AXELAR else LAYERZERO),
      args_id = log_id log\<rparr>"

text \<open>The same callback in the other revision.\<close>

definition BridgeRequest_of_log_part003 :: "BridgeRequest_log \<Rightarrow> BridgeRequestEvent" where
  "BridgeRequest_of_log_part003 log =
     \<lparr>transactionHash = log_transactionHash log,
      blockNumber = log_blockNumber log,
      address = log_address log,
      args_from = log_from log,
      args_to = log_to log,
      args_amount = log_normalizedAmount log,
      args_targetChainId = log_targetChainId log,
      args_timestamp = log_timestamp log,
      args_bridge = (if log_bridge log = 0 then LAYERZERO else AXELAR),
      args_id = log_id log\<rparr>"

text \<open>
  \<^verbatim>\<open>EventOptions\<close>, and \<^verbatim>\<open>logs.slice(0, limit)\<close> with
  \<^verbatim>\<open>limit = options?.limit || EVENT_QUERY_BATCH_SIZE\<close>.
\<close>

record EventOptions =
  fromBlock :: "int option"
  toBlock :: "int option"
  limit :: "int option"

definition EVENT_QUERY_BATCH_SIZE :: int where
  "EVENT_QUERY_BATCH_SIZE = 1000"

definition limit_or_default :: "EventOptions option \<Rightarrow> int" where
  "limit_or_default options =
     (case options of
        None \<Rightarrow> EVENT_QUERY_BATCH_SIZE
      | Some opts \<Rightarrow>
          (case limit opts of
             None \<Rightarrow> EVENT_QUERY_BATCH_SIZE
           | Some l \<Rightarrow> if l = 0 then EVENT_QUERY_BATCH_SIZE else l))"

definition slice_logs :: "'a list \<Rightarrow> int \<Rightarrow> 'a list" where
  "slice_logs logs n = (if n < 0 then take (nat (int (length logs) + n)) logs else take (nat n) logs)"

text \<open>
  \<^verbatim>\<open>getBridgeRequests\<close> of viem-sdk.ts. \<^verbatim>\<open>getBlockNumber\<close> is what the client's call
  does, outside the \<^verbatim>\<open>try\<close>; \<^verbatim>\<open>getContractEvents\<close> takes the contract address, the
  sender and the block range (\<^verbatim>\<open>None\<close> for \<^verbatim>\<open>"latest"\<close>).
\<close>

definition fromBlock_or :: "EventOptions option \<Rightarrow> int \<Rightarrow> int" where
  "fromBlock_or options dflt =
     (case options of
        None \<Rightarrow> dflt
      | Some opts \<Rightarrow>
          (case fromBlock opts of None \<Rightarrow> dflt | Some b \<Rightarrow> if b = 0 then dflt else b))"

definition toBlock_or_latest :: "EventOptions option \<Rightarrow> int option" where
  "toBlock_or_latest options =
     (case options of
        None \<Rightarrow> None
      | Some opts \<Rightarrow>
          (case toBlock opts of None \<Rightarrow> None | Some b \<Rightarrow> if b = 0 then None else Some b))"

definition getBridgeRequests ::
  "BridgingSDK \<Rightarrow> (thrown + int)
     \<Rightarrow> (string \<Rightarrow> string \<Rightarrow> int \<Rightarrow> int option \<Rightarrow> thrown + BridgeRequest_log list)
     \<Rightarrow> string \<Rightarrow> EventOptions option \<Rightarrow> thrown + BridgeRequestEvent list" where
  "getBridgeRequests sdk getBlockNumber getContractEvents addr options =
     (case BRIDGE_CONTRACT_ADDRESSES (currentChainId sdk) of
        None \<Rightarrow> Inl (Exn Error (not_deployed (currentChainId sdk)))
      | Some contractAddress \<Rightarrow>
          if contractAddress = [] then Inl (Exn Error (not_deployed (currentChainId sdk)))
          else
            (case getBlockNumber of
               Inl e \<Rightarrow> Inl e
             | Inr currentBlock \<Rightarrow>
                 (let from_block =
                        fromBlock_or options
                          (if currentBlock > 50000 then currentBlock - 50000 else 0)
                  in case getContractEvents contractAddress addr from_block (toBlock_or_latest options) of
                       Inl e \<Rightarrow>
                         Inl (Exn Error (''Failed to fetch bridge requests: '' @ message_or_unknown e))
                     | Inr logs \<Rightarrow>
                         Inr (map BridgeRequest_of_log (slice_logs logs (limit_or_default options))))))"

text \<open>The other revision: no block number is read, the range starts at block 0.\<close>

definition getBridgeRequests_part003 ::
  "BridgingSDK
     \<Rightarrow> (string \<Rightarrow> string \<Rightarrow> int \<Rightarrow> int option \<Rightarrow> thrown + BridgeRequest_log list)
     \<Rightarrow> string \<Rightarrow> EventOptions option \<Rightarrow> thrown + BridgeRequestEvent list" where
  "getBridgeRequests_part003 sdk getContractEvents addr options =
     (case BRIDGE_CONTRACT_ADDRESSES (currentChainId sdk) of
        None \<Rightarrow> Inl (Exn Error (not_deployed (currentChainId sdk)))
      | Some contractAddress \<Rightarrow>
          if contractAddress = [] then Inl (Exn Error (not_deployed (currentChainId sdk)))
          else
            (case getContractEvents contractAddress addr (fromBlock_or options 0)
                    (toBlock_or_latest options) of
               Inl e \<Rightarrow>
                 Inl (Exn Error (''Failed to fetch bridge requests: '' @ message_or_unknown e))
             | Inr logs \<Rightarrow>
                 Inr (map BridgeRequest_of_log_part003 (slice_logs logs (limit_or_default options)))))"

section \<open>Status tracking (utils/tracking.ts, and the methods of viem-sdk.ts)\<close>

datatype tx_state = pending | completed | failed

text \<open>A timestamp in milliseconds; \<^verbatim>\<open>new Date(s).getTime()\<close> is NaN for an invalid date.\<close>

datatype js_time = Millis int | InvalidDate

record TransactionStatus =
  status :: tx_state
  srcTxHash :: "string option"
  dstTxHash :: "string option"
  timestamp :: "js_time option"
  status_error :: "string option"

record LayerZeroMessage =
  lz_srcTxHash :: string
  lz_dstTxHash :: "string option"
  lz_status :: string
  lz_timestamp :: int

record LayerZeroScanResponse =
  messages :: "LayerZeroMessage list option"

record AxelarTransaction =
  ax_status :: string
  ax_sourceTxHash :: string
  ax_destinationTxHash :: "string option"
  ax_createdAt :: string
  ax_updatedAt :: string

record AxelarscanResponse =
  data :: "AxelarTransaction list option"

definition LAYERZERO_SCAN :: string where
  "LAYERZERO_SCAN = ''https://scan.layerzero-api.com/v1''"

definition AXELARSCAN :: string where
  "AXELARSCAN = ''https://api.axelarscan.io''"

definition status_only :: "tx_state \<Rightarrow> string option \<Rightarrow> TransactionStatus" where
  "status_only st err =
     \<lparr>status = st, srcTxHash = None, dstTxHash = None, timestamp = None, status_error = err\<rparr>"

subsection \<open>utils/tracking.ts\<close>

definition getLayerZeroStatus ::
  "(string \<Rightarrow> LayerZeroScanResponse http) \<Rightarrow> string \<Rightarrow> thrown + TransactionStatus" where
  "getLayerZeroStatus fetch txHash =
     (let caught = (\<lambda>e. Inr (status_only failed
                     (Some (''Failed to fetch LayerZero status: '' @ message_or_unknown e))))
      in case fetch (LAYERZERO_SCAN @ ''/message?txHash='' @ txHash) of
           FetchRejects e \<Rightarrow> caught e
         | Response ok statusText body \<Rightarrow>
             if \<not> ok then caught (Exn Error (''LayerZero Scan API error: '' @ statusText))
             else
               (case body of
                  Inl e \<Rightarrow> caught e
                | Inr d \<Rightarrow>
                    (case messages d of
                       None \<Rightarrow> Inr (status_only pending (Some ''Transaction not found''))
                     | Some [] \<Rightarrow> Inr (status_only pending (Some ''Transaction not found''))
                     | Some (message # _) \<Rightarrow>
                         if lz_status message = ''DELIVERED'' then
                           Inr \<lparr>status = completed,
                                srcTxHash = Some (lz_srcTxHash message),
                                dstTxHash = lz_dstTxHash message,
                                timestamp = Some (Millis (lz_timestamp message * 1000)),
                                status_error = None\<rparr>
                         else if lz_status message = ''FAILED'' then
                           Inr \<lparr>status = failed,
                                srcTxHash = Some (lz_srcTxHash message),
                                dstTxHash = lz_dstTxHash message,
                                timestamp = Some (Millis (lz_timestamp message * 1000)),
                                status_error = Some ''LayerZero transaction failed''\<rparr>
                         else
                           Inr \<lparr>status = pending,
                                srcTxHash = Some (lz_srcTxHash message),
                                dstTxHash = None,
                                timestamp = Some (Millis (lz_timestamp message * 1000)),
                                status_error = None\<rparr>)))"

text \<open>\<open>getTime\<close> stands for \<^verbatim>\<open>new Date(s).getTime()\<close>.\<close>

definition getAxelarStatus ::
  "(string \<Rightarrow> AxelarscanResponse http) \<Rightarrow> (string \<Rightarrow> js_time) \<Rightarrow> string
     \<Rightarrow> thrown + TransactionStatus" where
  "getAxelarStatus fetch getTime txHash =
     (let caught = (\<lambda>e. Inr (status_only failed
                     (Some (''Failed to fetch Axelar status: '' @ message_or_unknown e))))
      in case fetch (AXELARSCAN @ ''/gmp?txHash='' @ txHash) of
           FetchRejects e \<Rightarrow> caught e
         | Response ok statusText body \<Rightarrow>
             if \<not> ok then caught (Exn Error (''Axelarscan API error: '' @ statusText))
             else
               (case body of
                  Inl e \<Rightarrow> caught e
                | Inr d \<Rightarrow>
                    (case data d of
                       None \<Rightarrow> Inr (status_only pending (Some ''Transaction not found''))
                     | Some [] \<Rightarrow> Inr (status_only pending (Some ''Transaction not found''))
                     | Some (transaction # _) \<Rightarrow>
                         if ax_status transaction = ''executed'' then
                           Inr \<lparr>status = completed,
                                srcTxHash = Some (ax_sourceTxHash transaction),
                                dstTxHash = ax_destinationTxHash transaction,
                                timestamp = Some (getTime (ax_updatedAt transaction)),
                                status_error = None\<rparr>
                         else if ax_status transaction = ''failed'' then
                           Inr \<lparr>status = failed,
                                srcTxHash = Some (ax_sourceTxHash transaction),
                                dstTxHash = ax_destinationTxHash transaction,
                                timestamp = Some (getTime (ax_updatedAt transaction)),
                                status_error = Some ''Axelar transaction failed''\<rparr>
                         else
                           Inr \<lparr>status = pending,
                                srcTxHash = Some (ax_sourceTxHash transaction),
                                dstTxHash = None,
                                timestamp = Some (getTime (ax_createdAt transaction)),
                                status_error = None\<rparr>)))"

text \<open>
  \<^verbatim>\<open>getTransactionStatus\<close> of tracking.ts, which the \<^verbatim>\<open>getTransactionStatus\<close> method
  of the other revision of the class calls and returns. The \<^verbatim>\<open>default\<close> branch of its
  \<^verbatim>\<open>switch\<close> needs a protocol outside the type.
\<close>

definition getTransactionStatus ::
  "(string \<Rightarrow> LayerZeroScanResponse http) \<Rightarrow> (string \<Rightarrow> AxelarscanResponse http)
     \<Rightarrow> (string \<Rightarrow> js_time) \<Rightarrow> string \<Rightarrow> BridgeProtocol \<Rightarrow> thrown + TransactionStatus" where
  "getTransactionStatus fetchLz fetchAx getTime txHash protocol =
     (case protocol of
        LAYERZERO \<Rightarrow> getLayerZeroStatus fetchLz txHash
      | AXELAR \<Rightarrow> getAxelarStatus fetchAx getTime txHash)"

subsection \<open>The private methods of viem-sdk.ts\<close>

definition sdk_getLayerZeroStatus ::
  "(string \<Rightarrow> LayerZeroScanResponse http) \<Rightarrow> string \<Rightarrow> thrown + TransactionStatus" where
  "sdk_getLayerZeroStatus fetch txHash =
     (case fetch (LAYERZERO_SCAN @ ''/message?txHash='' @ txHash) of
        FetchRejects e \<Rightarrow> Inl e
      | Response ok statusText body \<Rightarrow>
          (case body of
             Inl e \<Rightarrow> Inl e
           | Inr d \<Rightarrow>
               (case messages d of
                  None \<Rightarrow> Inr (status_only pending None)
                | Some [] \<Rightarrow> Inr (status_only pending None)
                | Some (message # _) \<Rightarrow>
                    Inr \<lparr>status = (if lz_status message = ''DELIVERED'' then completed
                                   else if lz_status message = ''FAILED'' then failed
                                   else pending),
                         srcTxHash = Some (lz_srcTxHash message),
                         dstTxHash = lz_dstTxHash message,
                         timestamp = Some (Millis (lz_timestamp message * 1000)),
                         status_error = None\<rparr>)))"

definition sdk_getAxelarStatus ::
  "(string \<Rightarrow> AxelarscanResponse http) \<Rightarrow> (string \<Rightarrow> js_time) \<Rightarrow> string
     \<Rightarrow> thrown + TransactionStatus" where
  "sdk_getAxelarStatus fetch getTime txHash =
     (case fetch (AXELARSCAN @ ''/gmp?txHash='' @ txHash) of
        FetchRejects e \<Rightarrow> Inl e
      | Response ok statusText body \<Rightarrow>
          (case body of
             Inl e \<Rightarrow> Inl e
           | Inr d \<Rightarrow>
               (case data d of
                  None \<Rightarrow> Inr (status_only pending None)
                | Some [] \<Rightarrow> Inr (status_only pending None)
                | Some (transaction # _) \<Rightarrow>
                    Inr \<lparr>status = (if ax_status transaction = ''executed'' then completed
                                   else if ax_status transaction = ''failed'' then failed
                                   else pending),
                         srcTxHash = Some (ax_sourceTxHash transaction),
                         dstTxHash = ax_destinationTxHash transaction,
                         timestamp = Some (getTime (ax_updatedAt transaction)),
                         status_error = None\<rparr>)))"

text \<open>\<^verbatim>\<open>BridgingSDK.getTransactionStatus\<close> of viem-sdk.ts.\<close>

definition sdk_getTransactionStatus ::
  "(string \<Rightarrow> LayerZeroScanResponse http) \<Rightarrow> (string \<Rightarrow> AxelarscanResponse http)
     \<Rightarrow> (string \<Rightarrow> js_time) \<Rightarrow> string \<Rightarrow> BridgeProtocol \<Rightarrow> thrown + TransactionStatus" where
  "sdk_getTransactionStatus fetchLz fetchAx getTime txHash protocol =
     (if protocol = LAYERZERO then sdk_getLayerZeroStatus fetchLz txHash
      else sdk_getAxelarStatus fetchAx getTime txHash)"

subsection \<open>The status mapping\<close>

text \<open>
  The status that both implementations give for the scan status of the first message or
  transaction, as one function of the status string.
\<close>

definition lz_state :: "string \<Rightarrow> tx_state" where
  "lz_state s = (if s = ''DELIVERED'' then completed else if s = ''FAILED'' then failed else pending)"

definition ax_state :: "string \<Rightarrow> tx_state" where
  "ax_state s = (if s = ''executed'' then completed else if s = ''failed'' then failed else pending)"

section \<open>Concrete inputs\<close>

text \<open>
  The quote table of the spec's end-to-end scenario,
  \<^verbatim>\<open>{"AXELAR":{"AXL_CELO_TO_ETH":"2.0 Celo"}}\<close>, and a fee server that answers every
  request with it.
\<close>

definition example_feeData :: GoodServerFeeResponse where
  "example_feeData p =
     (if p = ''AXELAR'' then Some (\<lambda>k. if k = ''AXL_CELO_TO_ETH'' then Some ''2.0 Celo'' else None)
      else None)"

definition example_server :: fee_server where
  "example_server = \<lparr>responses = (\<lambda>n. Response True ''OK'' (Inr example_feeData)), requests = 0\<rparr>"

text \<open>
  Floating point on the one string the scenario parses: \<^verbatim>\<open>parseFloat("2.0")\<close> is 2, and
  \<^verbatim>\<open>2 * 10 ** 18\<close> is the double 2000000000000000000 exactly, already an integer.
\<close>

definition example_float :: float_ops where
  "example_float =
     \<lparr>parseFloat_isNaN = (\<lambda>s. s \<noteq> ''2.0''),
      floor_scaled = (\<lambda>s d. if s = ''2.0'' \<and> d = 18 then Some 2000000000000000000 else None)\<rparr>"

text \<open>An SDK instance on Celo whose fee cache is still empty.\<close>

definition celo_sdk :: BridgingSDK where
  "celo_sdk = \<lparr>currentChainId = 42220, fees = None\<rparr>"

text \<open>A contract read that reverts, and scan services that cannot be reached.\<close>

definition reverting_read :: "string \<Rightarrow> string \<Rightarrow> int \<Rightarrow> thrown + bool \<times> string" where
  "reverting_read contractAddress from normalizedAmount = Inl (Exn Error ''execution reverted'')"

definition unreachable :: "string \<Rightarrow> 'a http" where
  "unreachable url = FetchRejects (Exn TypeError ''fetch failed'')"

definition epoch :: "string \<Rightarrow> js_time" where
  "epoch s = Millis 0"

section \<open>Properties of the decimal converter\<close>

lemma getChainDecimals_cases: "getChainDecimals c = 18 \<or> getChainDecimals c = 2"
  by (simp add: getChainDecimals_def SUPPORTED_CHAINS_def NORMALIZED_DECIMALS_def)

lemma bigint_div_mult_cancel: "m \<noteq> 0 \<Longrightarrow> bigint_div (a * m) m = a"
proof -
  assume m: "m \<noteq> 0"
  have "bigint_div (a * m) m = sgn a * (sgn m * sgn m) * \<bar>a\<bar>"
    using m by (simp add: bigint_div_def abs_mult sgn_mult)
  also have "sgn m * sgn m = 1"
    using m by (simp add: sgn_if)
  finally show ?thesis
    by (simp add: mult_sgn_abs)
qed

lemma bigint_div_nonneg: "0 \<le> a \<Longrightarrow> 0 < b \<Longrightarrow> bigint_div a b = a div b"
  by (cases "a = 0") (simp_all add: bigint_div_def)

lemma bigint_rem_nonneg: "0 \<le> a \<Longrightarrow> 0 < b \<Longrightarrow> bigint_rem a b = a mod b"
  by (cases "a = 0") (simp_all add: bigint_rem_def)

text \<open>
  C1, as stated, at 115 units on Fuse (chain 122, 2 decimals): the round trip returns 115
  itself, which is not 115 truncated to a multiple of \<open>10 ^ (18 - 2)\<close>.
\<close>

theorem roundtrip_counterexample:
  "denormalizeAmount (normalizeAmount 115 122) 122 = 115 \<and>
   denormalizeAmount (normalizeAmount 115 122) 122 \<noteq> 115 div 10 ^ 16 * 10 ^ 16"
  by (simp add: denormalizeAmount_def normalizeAmount_def getChainDecimals_def
      SUPPORTED_CHAINS_def NORMALIZED_DECIMALS_def bigint_div_def)

text \<open>
  C1, amended: for every amount \<open>x\<close> and every chain id \<open>c\<close> (on every chain of the registry
  the decimals are 2 or 18, and an unknown chain counts as 18), normalizing and then
  denormalizing returns \<open>x\<close> exactly. Normalizing multiplies by \<open>10 ^ (18 - d)\<close>, so the
  truncating division that follows loses nothing: this direction of the round trip is
  lossless for \<open>d < 18\<close> as well as for \<open>d = 18\<close>.
\<close>

theorem normalize_then_denormalize_exact:
  "denormalizeAmount (normalizeAmount x c) c = x"
  using getChainDecimals_cases [of c]
  by (auto simp: denormalizeAmount_def normalizeAmount_def NORMALIZED_DECIMALS_def
      bigint_div_mult_cancel)

text \<open>
  C2: on a supported chain, \<open>normalizeAmount\<close> returns the amount unchanged when the chain
  has 18 decimals and the amount times \<open>10 ^ (18 - d)\<close> when it has \<open>d < 18\<close> decimals;
  115 units on Fuse (2 decimals) normalize to 1150000000000000000.
\<close>

theorem normalizeAmount_scales_to_18:
  assumes "SUPPORTED_CHAINS c = Some ch"
  shows "(chain_decimals ch = 18 \<longrightarrow> normalizeAmount amount c = amount) \<and>
         (chain_decimals ch < 18 \<longrightarrow>
            normalizeAmount amount c = amount * 10 ^ nat (18 - chain_decimals ch)) \<and>
         normalizeAmount 115 122 = 1150000000000000000"
  using assms
  by (auto simp: normalizeAmount_def getChainDecimals_def SUPPORTED_CHAINS_def
      NORMALIZED_DECIMALS_def split: if_splits)

theorem normalizeAmount_scales_to_18_witness:
  "SUPPORTED_CHAINS 122 = Some \<lparr>chain_id = 122, chain_name = ''Fuse'', chain_decimals = 2,
      nativeCurrency = \<lparr>currency_name = ''Fuse'', symbol = ''FUSE'', currency_decimals = 18\<rparr>\<rparr> \<and>
   normalizeAmount 7 122 = 70000000000000000 \<and>
   SUPPORTED_CHAINS 50 = Some \<lparr>chain_id = 50, chain_name = ''XDC'', chain_decimals = 18,
      nativeCurrency = \<lparr>currency_name = ''XDC Network'', symbol = ''XDC'', currency_decimals = 18\<rparr>\<rparr> \<and>
   normalizeAmount 7 50 = 7"
proof -
  have f: "SUPPORTED_CHAINS 122 = Some \<lparr>chain_id = 122, chain_name = ''Fuse'', chain_decimals = 2,
      nativeCurrency = \<lparr>currency_name = ''Fuse'', symbol = ''FUSE'', currency_decimals = 18\<rparr>\<rparr>"
    by (simp add: SUPPORTED_CHAINS_def)
  have x: "SUPPORTED_CHAINS 50 = Some \<lparr>chain_id = 50, chain_name = ''XDC'', chain_decimals = 18,
      nativeCurrency = \<lparr>currency_name = ''XDC Network'', symbol = ''XDC'', currency_decimals = 18\<rparr>\<rparr>"
    by (simp add: SUPPORTED_CHAINS_def)
  show ?thesis
    using normalizeAmount_scales_to_18 [OF f, of 7] normalizeAmount_scales_to_18 [OF x, of 7] f x
    by simp
qed

section \<open>Properties of the fee estimator and of the SDK class\<close>

lemma parse_example: "parseNativeFee example_float ''2.0 Celo'' 42220 = Inr 2000000000000000000"
  by (simp add: parseNativeFee_def example_float_def SUPPORTED_CHAINS_def)

lemma from_example:
  "getFeeEstimate_from example_float example_feeData 42220 1 AXELAR =
     Inr \<lparr>fee = 2200000000000000000, feeInNative = ''2.0 Celo'', protocol_of = AXELAR\<rparr>"
  by (simp add: getFeeEstimate_from_def example_feeData_def protocol_name_def getChainName_def
      parse_example FEE_MULTIPLIER_PERCENT_def bigint_div_def)

text \<open>
  C3, as stated, fails in both directions on an SDK on Celo. With Ethereum (id 1, one of
  the two 2-decimal chains) as the target, \<open>estimateFee\<close> for AXELAR does not fail: it asks
  the fee server twice (once to fill the cache, once in \<open>getFeeEstimate\<close>) and returns the
  estimate. With XDC (id 50, 18 decimals) as the target, neither chain has 2 decimals and
  the call fails with the Axelar error.
\<close>

theorem estimateFee_counterexample:
  "fst (estimateFee example_float celo_sdk example_server 1 AXELAR) =
     Inr \<lparr>fee = 2200000000000000000, feeInNative = ''2.0 Celo'', protocol_of = AXELAR\<rparr> \<and>
   requests (snd (snd (estimateFee example_float celo_sdk example_server 1 AXELAR))) = 2 \<and>
   estimateFee example_float celo_sdk example_server 50 AXELAR =
     (Inl (axelar_not_supported ''Celo'' ''XDC''), celo_sdk, example_server) \<and>
   map_option chain_decimals (SUPPORTED_CHAINS 42220) = Some 18 \<and>
   map_option chain_decimals (SUPPORTED_CHAINS 50) = Some 18"
  by (simp add: estimateFee_def celo_sdk_def example_server_def initialize_def
      fetchFeeEstimates_def getFeeEstimate_def from_example SUPPORTED_CHAINS_def)


lemma fetchFeeEstimates_not_axelar:
  "fst (fetchFeeEstimates srv) \<noteq> Inl (axelar_not_supported x y)"
  by (simp add: fetchFeeEstimates_def fee_estimation_failed_def axelar_not_supported_def
      split: http.splits sum.splits)

lemma parseNativeFee_not_axelar:
  "parseNativeFee fl s c \<noteq> Inl (axelar_not_supported x y)"
  by (simp add: parseNativeFee_def axelar_not_supported_def Let_def split: option.splits)

lemma getChainName_not_axelar:
  "getChainName c \<noteq> Inl (axelar_not_supported x y)"
  by (simp add: getChainName_def axelar_not_supported_def)

lemma getFeeEstimate_from_not_axelar:
  "getFeeEstimate_from fl feeData a b p \<noteq> Inl (axelar_not_supported x y)"
  using parseNativeFee_not_axelar [of fl _ a x y] getChainName_not_axelar [of _ x y]
  by (auto simp: getFeeEstimate_from_def Let_def no_route_def axelar_not_supported_def
      split: option.splits sum.splits)

lemma getFeeEstimate_not_axelar:
  "fst (getFeeEstimate fl srv a b p) \<noteq> Inl (axelar_not_supported x y)"
  using fetchFeeEstimates_not_axelar [of srv x y] getFeeEstimate_from_not_axelar [of fl _ a b p x y]
  by (auto simp: getFeeEstimate_def split: prod.splits sum.splits)

lemma initialize_not_axelar:
  "fst (initialize sdk srv) \<noteq> Inl (axelar_not_supported x y)"
  using fetchFeeEstimates_not_axelar [of srv x y]
  by (auto simp: initialize_def split: prod.splits sum.splits)

text \<open>
  C3, amended: in viem-sdk.ts, on supported chains, \<open>estimateFee\<close> for AXELAR fails with
  the Axelar-not-supported error when the current chain or the target chain is XDC
  (id 50) or Fuse (id 122), and then nothing has been requested from the fee server and
  nothing cached; for every other protocol and chain pair, Ethereum (id 1) included, the
  call never fails with that error.
\<close>

theorem estimateFee_axelar_guard:
  assumes "SUPPORTED_CHAINS (currentChainId sdk) = Some a"
    and "SUPPORTED_CHAINS targetChainId = Some b"
  shows "(protocol = AXELAR \<and> (currentChainId sdk \<in> {50, 122} \<or> targetChainId \<in> {50, 122}) \<longrightarrow>
            estimateFee fl sdk srv targetChainId protocol =
              (Inl (axelar_not_supported (chain_name a) (chain_name b)), sdk, srv)) \<and>
         (\<not> (protocol = AXELAR \<and> (currentChainId sdk \<in> {50, 122} \<or> targetChainId \<in> {50, 122})) \<longrightarrow>
            fst (estimateFee fl sdk srv targetChainId protocol) \<noteq> Inl (axelar_not_supported x y))"
proof (intro conjI impI)
  assume "protocol = AXELAR \<and> (currentChainId sdk \<in> {50, 122} \<or> targetChainId \<in> {50, 122})"
  then show "estimateFee fl sdk srv targetChainId protocol =
      (Inl (axelar_not_supported (chain_name a) (chain_name b)), sdk, srv)"
    using assms by (auto simp: estimateFee_def)
next
  assume n: "\<not> (protocol = AXELAR \<and> (currentChainId sdk \<in> {50, 122} \<or> targetChainId \<in> {50, 122}))"
  show "fst (estimateFee fl sdk srv targetChainId protocol) \<noteq> Inl (axelar_not_supported x y)"
  proof (cases "fees sdk = None")
    case True
    show ?thesis
    proof (cases "initialize sdk srv")
      case (fields r sdk' srv')
      show ?thesis
      proof (cases r)
        case (Inl e)
        then show ?thesis
          using n True fields initialize_not_axelar [of sdk srv x y]
          by (auto simp: estimateFee_def)
      next
        case (Inr u)
        then show ?thesis
          using n True fields getFeeEstimate_not_axelar [of fl srv' "currentChainId sdk'" targetChainId protocol x y]
          by (auto simp: estimateFee_def split: prod.splits)
      qed
    qed
  next
    case False
    then show ?thesis
      using n getFeeEstimate_not_axelar [of fl srv "currentChainId sdk" targetChainId protocol x y]
      by (auto simp: estimateFee_def split: prod.splits)
  qed
qed

theorem estimateFee_axelar_guard_witness:
  "estimateFee example_float celo_sdk example_server 122 AXELAR =
     (Inl (axelar_not_supported ''Celo'' ''Fuse''), celo_sdk, example_server) \<and>
   fst (estimateFee example_float celo_sdk example_server 1 AXELAR) \<noteq>
     Inl (axelar_not_supported ''Celo'' ''Ethereum'')"
proof -
  have c: "SUPPORTED_CHAINS (currentChainId celo_sdk) =
      Some \<lparr>chain_id = 42220, chain_name = ''Celo'', chain_decimals = 18,
          nativeCurrency = \<lparr>currency_name = ''Celo'', symbol = ''CELO'', currency_decimals = 18\<rparr>\<rparr>"
    by (simp add: SUPPORTED_CHAINS_def celo_sdk_def)
  have f: "SUPPORTED_CHAINS 122 = Some \<lparr>chain_id = 122, chain_name = ''Fuse'', chain_decimals = 2,
      nativeCurrency = \<lparr>currency_name = ''Fuse'', symbol = ''FUSE'', currency_decimals = 18\<rparr>\<rparr>"
    by (simp add: SUPPORTED_CHAINS_def)
  have e: "SUPPORTED_CHAINS 1 = Some \<lparr>chain_id = 1, chain_name = ''Ethereum'', chain_decimals = 2,
      nativeCurrency = \<lparr>currency_name = ''Ethereum'', symbol = ''ETH'', currency_decimals = 18\<rparr>\<rparr>"
    by (simp add: SUPPORTED_CHAINS_def)
  have cur: "currentChainId celo_sdk = 42220"
    by (simp add: celo_sdk_def)
  show ?thesis
    using estimateFee_axelar_guard [OF c f, where protocol = AXELAR and fl = example_float
          and srv = example_server]
      estimateFee_axelar_guard [OF c e, where protocol = AXELAR and fl = example_float
          and srv = example_server and x = "''Celo''" and y = "''Ethereum''"]
    by (simp add: cur)
qed

text \<open>
  C4: when the fee table is fetched and holds a quote string for the route, and the quote
  parses to a base fee \<open>F \<ge> 0\<close> in the source chain's decimals, \<open>getFeeEstimate\<close> returns
  the fee \<open>floor (F * 110 / 100)\<close>; for the route CELO to ETH via AXELAR with the quote
  "2.0 Celo", which parses to \<open>2 * 10 ^ 18\<close>, the fee is 2200000000000000000.
\<close>

theorem getFeeEstimate_buffered_fee:
  assumes "fetchFeeEstimates srv = (Inr feeData, srv')"
    and "feeData (protocol_name protocol) = Some protocolData"
    and "getChainName fromChainId = Inr fromChainName"
    and "getChainName toChainId = Inr toChainName"
    and "protocolData ((if protocol = AXELAR then ''AXL'' else ''LZ'') @ ''_'' @ fromChainName
            @ ''_TO_'' @ toChainName) = Some feeString"
    and "feeString \<noteq> []"
    and "parseNativeFee fl feeString fromChainId = Inr F"
    and "0 \<le> F"
  shows "getFeeEstimate fl srv fromChainId toChainId protocol =
           (Inr \<lparr>fee = F * 110 div 100, feeInNative = feeString, protocol_of = protocol\<rparr>, srv') \<and>
         getFeeEstimate example_float example_server 42220 1 AXELAR =
           (Inr \<lparr>fee = 2200000000000000000, feeInNative = ''2.0 Celo'', protocol_of = AXELAR\<rparr>,
            example_server\<lparr>requests := 1\<rparr>)"
proof
  have "bigint_div (F * FEE_MULTIPLIER_PERCENT) 100 = F * 110 div 100"
    using \<open>0 \<le> F\<close> by (simp add: bigint_div_nonneg FEE_MULTIPLIER_PERCENT_def)
  then show "getFeeEstimate fl srv fromChainId toChainId protocol =
      (Inr \<lparr>fee = F * 110 div 100, feeInNative = feeString, protocol_of = protocol\<rparr>, srv')"
    using assms by (simp add: getFeeEstimate_def getFeeEstimate_from_def Let_def)
next
  show "getFeeEstimate example_float example_server 42220 1 AXELAR =
      (Inr \<lparr>fee = 2200000000000000000, feeInNative = ''2.0 Celo'', protocol_of = AXELAR\<rparr>,
       example_server\<lparr>requests := 1\<rparr>)"
    by (simp add: getFeeEstimate_def fetchFeeEstimates_def example_server_def from_example)
qed

theorem getFeeEstimate_buffered_fee_witness:
  "fetchFeeEstimates example_server = (Inr example_feeData, example_server\<lparr>requests := 1\<rparr>) \<and>
   parseNativeFee example_float ''2.0 Celo'' 42220 = Inr 2000000000000000000 \<and>
   fst (getFeeEstimate example_float example_server 42220 1 AXELAR) =
     Inr \<lparr>fee = 2000000000000000000 * 110 div 100, feeInNative = ''2.0 Celo'',
          protocol_of = AXELAR\<rparr>"
proof -
  have a: "fetchFeeEstimates example_server = (Inr example_feeData, example_server\<lparr>requests := 1\<rparr>)"
    by (simp add: fetchFeeEstimates_def example_server_def)
  have b: "example_feeData (protocol_name AXELAR) =
      Some (\<lambda>k. if k = ''AXL_CELO_TO_ETH'' then Some ''2.0 Celo'' else None)"
    by (simp add: example_feeData_def protocol_name_def)
  have c: "getChainName 42220 = Inr ''CELO''" and d: "getChainName 1 = Inr ''ETH''"
    by (simp_all add: getChainName_def)
  have e: "(\<lambda>k. if k = ''AXL_CELO_TO_ETH'' then Some ''2.0 Celo'' else None)
      ((if AXELAR = AXELAR then ''AXL'' else ''LZ'') @ ''_'' @ ''CELO'' @ ''_TO_'' @ ''ETH'') =
      Some ''2.0 Celo''"
    by simp
  have f: "''2.0 Celo'' \<noteq> []" and g: "(0::int) \<le> 2000000000000000000"
    by simp_all
  show ?thesis
    using getFeeEstimate_buffered_fee [OF a b c d e f parse_example g] a parse_example
    by simp
qed

text \<open>
  C8: whatever the inputs and whatever the contract read does, \<open>canBridge\<close> returns a result
  and never throws; when the target chain is unsupported, when no bridge contract is
  known for the current chain, or when the read throws (a revert, an RPC error), the
  result has \<open>isWithinLimit = false\<close> and a non-empty error message.
\<close>

theorem canBridge_never_throws:
  "\<exists>r. canBridge sdk readContract from amount targetChainId = Inr r \<and>
     ((SUPPORTED_CHAINS targetChainId = None \<or>
       (case BRIDGE_CONTRACT_ADDRESSES (currentChainId sdk) of
          None \<Rightarrow> True
        | Some ca \<Rightarrow>
            ca = [] \<or> isl (readContract ca from (normalizeAmount amount (currentChainId sdk))))) \<longrightarrow>
      \<not> isWithinLimit r \<and> (\<exists>m. error r = Some m \<and> m \<noteq> []))"
proof (cases "SUPPORTED_CHAINS targetChainId")
  case None
  then show ?thesis
    by (simp add: canBridge_def)
next
  case (Some ch)
  show ?thesis
  proof (cases "canBridge_try sdk readContract from amount")
    case (Inl e)
    then show ?thesis
      using Some by (simp add: canBridge_def)
  next
    case (Inr r)
    then have "canBridge sdk readContract from amount targetChainId = Inr r"
      using Some by (simp add: canBridge_def)
    moreover have "\<not> isWithinLimit r \<and> (\<exists>m. error r = Some m \<and> m \<noteq> [])"
      if "case BRIDGE_CONTRACT_ADDRESSES (currentChainId sdk) of
            None \<Rightarrow> True
          | Some ca \<Rightarrow>
              ca = [] \<or> isl (readContract ca from (normalizeAmount amount (currentChainId sdk)))"
      using that Inr
      by (auto simp: canBridge_try_def not_deployed_def Let_def split: option.splits sum.splits if_splits)
    ultimately show ?thesis
      using Some by simp
  qed
qed

theorem canBridge_never_throws_witness:
  "canBridge celo_sdk reverting_read ''0xabc'' 5 122 =
     Inr \<lparr>isWithinLimit = False,
          error = Some ''Failed to check bridge limits: execution reverted''\<rparr> \<and>
   isl (reverting_read ''0xa3247276dbcc76dd7705273f766eb3e8a5ecf4a5'' ''0xabc''
          (normalizeAmount 5 (currentChainId celo_sdk)))"
  using canBridge_never_throws [of celo_sdk reverting_read "''0xabc''" 5 122]
  by (simp add: canBridge_def canBridge_try_def celo_sdk_def reverting_read_def
      SUPPORTED_CHAINS_def BRIDGE_CONTRACT_ADDRESSES_def)

section \<open>Properties of status tracking\<close>

lemma getLayerZeroStatus_returns: "\<exists>s. getLayerZeroStatus fetch txHash = Inr s"
  by (simp add: getLayerZeroStatus_def Let_def split: http.splits sum.splits option.splits list.splits)

lemma getAxelarStatus_returns: "\<exists>s. getAxelarStatus fetch getTime txHash = Inr s"
  by (simp add: getAxelarStatus_def Let_def split: http.splits sum.splits option.splits list.splits)

text \<open>
  The function of tracking.ts does what C9 says. It never throws; a request that is
  rejected, a response that is not \<^verbatim>\<open>ok\<close> and a body that does not parse all give the
  status \<open>failed\<close> with a message; and the first message or transaction of the response
  decides the status.
\<close>

lemma getTransactionStatus_fails_closed:
  "\<exists>s. getTransactionStatus fetchLz fetchAx getTime txHash protocol = Inr s"
  using getLayerZeroStatus_returns getAxelarStatus_returns
  by (cases protocol) (simp_all add: getTransactionStatus_def)

lemma getLayerZeroStatus_errors:
  assumes "fetch (LAYERZERO_SCAN @ ''/message?txHash='' @ txHash) = r"
    and "r = FetchRejects e \<or> r = Response True st (Inl e) \<or>
         (r = Response False st body \<and> e = Exn Error (''LayerZero Scan API error: '' @ st))"
  shows "getLayerZeroStatus fetch txHash =
     Inr (status_only failed (Some (''Failed to fetch LayerZero status: '' @ message_or_unknown e)))"
  using assms by (auto simp: getLayerZeroStatus_def)

lemma getAxelarStatus_errors:
  assumes "fetch (AXELARSCAN @ ''/gmp?txHash='' @ txHash) = r"
    and "r = FetchRejects e \<or> r = Response True st (Inl e) \<or>
         (r = Response False st body \<and> e = Exn Error (''Axelarscan API error: '' @ st))"
  shows "getAxelarStatus fetch getTime txHash =
     Inr (status_only failed (Some (''Failed to fetch Axelar status: '' @ message_or_unknown e)))"
  using assms by (auto simp: getAxelarStatus_def)

lemma layerzero_status_mapping:
  assumes "fetch (LAYERZERO_SCAN @ ''/message?txHash='' @ txHash) = Response True st (Inr d)"
  shows "map_sum id status (getLayerZeroStatus fetch txHash) =
           Inr (case messages d of Some (m # _) \<Rightarrow> lz_state (lz_status m) | _ \<Rightarrow> pending)"
    and "map_sum id status (sdk_getLayerZeroStatus fetch txHash) =
           Inr (case messages d of Some (m # _) \<Rightarrow> lz_state (lz_status m) | _ \<Rightarrow> pending)"
  using assms
  by (auto simp: getLayerZeroStatus_def sdk_getLayerZeroStatus_def lz_state_def status_only_def
      split: option.splits list.splits)

lemma axelar_status_mapping:
  assumes "fetch (AXELARSCAN @ ''/gmp?txHash='' @ txHash) = Response True st (Inr d)"
  shows "map_sum id status (getAxelarStatus fetch getTime txHash) =
           Inr (case data d of Some (t # _) \<Rightarrow> ax_state (ax_status t) | _ \<Rightarrow> pending)"
    and "map_sum id status (sdk_getAxelarStatus fetch getTime txHash) =
           Inr (case data d of Some (t # _) \<Rightarrow> ax_state (ax_status t) | _ \<Rightarrow> pending)"
  using assms
  by (auto simp: getAxelarStatus_def sdk_getAxelarStatus_def ax_state_def status_only_def
      split: option.splits list.splits)

text \<open>
  C9 on the method of viem-sdk.ts, when the scan service cannot be reached: the rejection
  of \<^verbatim>\<open>fetch\<close> leaves \<open>getTransactionStatus\<close> as an exception, for either protocol, where
  the function of tracking.ts returns the status \<open>failed\<close> with a message.
\<close>

theorem sdk_getTransactionStatus_propagates:
  "sdk_getTransactionStatus unreachable unreachable epoch ''0xabc'' LAYERZERO =
     Inl (Exn TypeError ''fetch failed'') \<and>
   sdk_getTransactionStatus unreachable unreachable epoch ''0xabc'' AXELAR =
     Inl (Exn TypeError ''fetch failed'') \<and>
   getTransactionStatus unreachable unreachable epoch ''0xabc'' LAYERZERO =
     Inr (status_only failed (Some ''Failed to fetch LayerZero status: fetch failed''))"
  by (simp add: sdk_getTransactionStatus_def sdk_getLayerZeroStatus_def sdk_getAxelarStatus_def
      getTransactionStatus_def getLayerZeroStatus_def unreachable_def)

section \<open>Properties of the bridge number\<close>

text \<open>Within each revision the event parser inverts the number that \<open>bridgeTo\<close> sends.\<close>

lemma bridge_number_roundtrip:
  "args_bridge (BridgeRequest_of_log
      (log\<lparr>log_bridge := arg_bridge (opts_args (bridgeTo t c a p v))\<rparr>)) = p"
  "args_bridge (BridgeRequest_of_log_part003
      (log\<lparr>log_bridge := arg_bridge (opts_args (bridgeTo_part003 t c a p v))\<rparr>)) = p"
  by (cases p; simp add: BridgeRequest_of_log_def bridgeTo_def
      BridgeRequest_of_log_part003_def bridgeTo_part003_def)+

text \<open>
  C10 at AXELAR: the \<open>bridgeTo\<close> of viem-sdk.ts sends bridge number 0, the \<open>bridgeTo\<close> of
  the other revision sends 1, for the same call on the same contract function.
\<close>

theorem bridgeTo_numbers_differ:
  "arg_bridge (opts_args (bridgeTo ''0xabc'' 1 5 AXELAR None)) = 0 \<and>
   arg_bridge (opts_args (bridgeTo_part003 ''0xabc'' 1 5 AXELAR None)) = 1"
  by (simp add: bridgeTo_def bridgeTo_part003_def)

section \<open>Properties of formatting and parsing\<close>

lemma digit_range: "0 \<le> k \<Longrightarrow> k < 10 \<Longrightarrow> (k::int) \<in> {0, 1, 2, 3, 4, 5, 6, 7, 8, 9}"
  by simp presburger

lemma digit_char_props:
  assumes "0 \<le> k" "k < 10"
  shows "digit_val (digit_char k) = k" and "is_digit (digit_char k)"
    and "(digit_char k = CHR ''0'') = (k = 0)"
  using digit_range [OF assms]
  by (auto simp: digit_char_def digit_val_def is_digit_def)

lemma is_digit_props:
  assumes "is_digit c"
  shows "c \<noteq> CHR ''.''" and "\<not> is_space c" and "0 \<le> digit_val c" and "digit_val c < 10"
    and "c \<noteq> CHR ''+''" and "c \<noteq> CHR ''-''"
  using assms by (auto simp: is_digit_def is_space_def digit_val_def)

lemma is_digit_0 [simp]: "is_digit CHR ''0''"
  by (simp add: is_digit_def)

lemma digit_val_zero [simp]: "digit_val CHR ''0'' = 0"
  by (simp add: digit_val_def)

lemma all_digits_simps [simp]:
  "all_digits []"
  "all_digits (c # s) = (is_digit c \<and> all_digits s)"
  "all_digits (s @ t) = (all_digits s \<and> all_digits t)"
  by (auto simp: all_digits_def)

lemma all_digits_replicate0 [simp]: "all_digits (replicate n CHR ''0'')"
  by (simp add: all_digits_def list_all_iff is_digit_def)

lemma digits_value_Nil [simp]: "digits_value [] = 0"
  by (simp add: digits_value_def)

lemma digits_value_0 [simp]: "digits_value ''0'' = 0"
  by (simp add: digits_value_def)

lemma digits_value_snoc: "digits_value (s @ [c]) = 10 * digits_value s + digit_val c"
  by (simp add: digits_value_def)

lemma digits_value_append:
  "digits_value (a @ b) = digits_value a * 10 ^ length b + digits_value b"
proof (induction b rule: rev_induct)
  case Nil
  show ?case by simp
next
  case (snoc c b)
  have "digits_value (a @ b @ [c]) = 10 * digits_value (a @ b) + digit_val c"
    using digits_value_snoc [of "a @ b" c] by simp
  then show ?case
    by (simp add: snoc.IH digits_value_snoc algebra_simps)
qed

lemma digits_value_zeros [simp]: "digits_value (replicate n CHR ''0'') = 0"
proof (induction n)
  case 0
  show ?case by simp
next
  case (Suc n)
  have "replicate (Suc n) CHR ''0'' = replicate n CHR ''0'' @ [CHR ''0'']"
    by (simp add: replicate_append_same)
  then show ?case
    using Suc by (simp only: digits_value_snoc) simp
qed

lemma digits_value_bounds:
  "all_digits s \<Longrightarrow> 0 \<le> digits_value s \<and> digits_value s < 10 ^ length s"
proof (induction s rule: rev_induct)
  case Nil
  show ?case by simp
next
  case (snoc c s)
  then have "0 \<le> digits_value s" "digits_value s + 1 \<le> 10 ^ length s"
    and "0 \<le> digit_val c" "digit_val c < 10"
    by (auto simp: is_digit_props)
  then show ?case
    by (simp add: digits_value_snoc) 
qed

lemma digits_toString_props:
  "0 \<le> n \<Longrightarrow> all_digits (digits_toString n) \<and> digits_value (digits_toString n) = n \<and>
     digits_toString n \<noteq> [] \<and> (0 < n \<longrightarrow> hd (digits_toString n) \<noteq> CHR ''0'')"
proof (induction n rule: digits_toString.induct)
  case (1 n)
  show ?case
  proof (cases "n < 10")
    case True
    then show ?thesis
      using "1.prems" digit_char_props [of n]
      by (simp add: digits_toString.simps [of n] digits_value_def)
  next
    case False
    then have ih: "all_digits (digits_toString (n div 10))"
        "digits_value (digits_toString (n div 10)) = n div 10"
        "digits_toString (n div 10) \<noteq> []"
        "hd (digits_toString (n div 10)) \<noteq> CHR ''0''"
      using "1.IH" "1.prems" by auto
    have m: "0 \<le> n mod 10" "n mod 10 < 10"
      by auto
    show ?thesis
      using False ih digit_char_props [OF m]
      by (simp add: digits_toString.simps [of n] digits_value_snoc)
  qed
qed

lemma digits_toString_zero: "digits_toString 0 = ''0''"
  by (simp add: digits_toString.simps digit_char_def)

lemma digits_toString_length:
  "0 \<le> n \<Longrightarrow> n < 10 ^ k \<Longrightarrow> 0 < k \<Longrightarrow> length (digits_toString n) \<le> k"
proof (induction n arbitrary: k rule: digits_toString.induct)
  case (1 n)
  show ?case
  proof (cases "n < 10")
    case True
    then show ?thesis
      using "1.prems" by (simp add: digits_toString.simps [of n])
  next
    case False
    obtain j where k: "k = Suc j"
      using "1.prems" by (cases k) auto
    have "0 < j"
      using False "1.prems" k by (cases j) auto
    moreover have "n div 10 < 10 ^ j"
    proof -
      define m :: int where "m = 10 ^ j"
      have "n < 10 * m"
        using "1.prems" k by (simp add: m_def)
      then have "n div 10 < m"
        by presburger
      then show ?thesis
        by (simp add: m_def)
    qed
    ultimately have "length (digits_toString (n div 10)) \<le> j"
      using "1.IH" [of j] False "1.prems" by simp
    then show ?thesis
      using False k by (simp add: digits_toString.simps [of n])
  qed
qed


lemma trim_digits: "all_digits s \<Longrightarrow> trim s = s"
proof (cases s rule: rev_cases)
  case Nil
  then show ?thesis by (simp add: trim_def)
next
  case (snoc t c)
  assume d: "all_digits s"
  have 1: "dropWhile is_space s = s"
  proof (cases s)
    case Nil
    then show ?thesis by simp
  next
    case (Cons a u)
    then show ?thesis
      using d by (simp add: is_digit_props)
  qed
  have "\<not> is_space c"
    using d snoc by (simp add: is_digit_props)
  then have "dropWhile is_space (rev s) = rev s"
    using snoc by simp
  then show ?thesis
    using 1 by (simp add: trim_def)
qed

lemma BigInt_of_digits:
  "all_digits s \<Longrightarrow> s \<noteq> [] \<Longrightarrow> BigInt_of_string s = Inr (digits_value s)"
  by (simp add: BigInt_of_string_def trim_digits)

lemma no_dot_in_digits: "all_digits s \<Longrightarrow> CHR ''.'' \<notin> set s"
  by (induction s) (auto dest: is_digit_props(1))

lemma split_no_sep: "sep \<notin> set w \<Longrightarrow> split sep w = [w]"
  by (induction w) auto

lemma split_at_sep: "sep \<notin> set w \<Longrightarrow> split sep (w @ sep # f) = w # split sep f"
  by (induction w) auto

lemma strip_trailing_zeros_pad:
  "strip_trailing_zeros s @ replicate (length s - length (strip_trailing_zeros s)) CHR ''0'' = s"
proof -
  let ?P = "\<lambda>c. c = CHR ''0''"
  have z: "takeWhile ?P (rev s) = replicate (length (takeWhile ?P (rev s))) CHR ''0''"
    by (rule replicate_eqI) (auto dest: set_takeWhileD)
  have "rev s = takeWhile ?P (rev s) @ dropWhile ?P (rev s)"
    by simp
  then have "s = rev (dropWhile ?P (rev s)) @ rev (takeWhile ?P (rev s))"
    by (metis rev_append rev_rev_ident)
  then have s: "s = strip_trailing_zeros s @ replicate (length (takeWhile ?P (rev s))) CHR ''0''"
    using z by (metis rev_replicate strip_trailing_zeros_def)
  have "length s = length (strip_trailing_zeros s) + length (takeWhile ?P (rev s))"
    by (subst s) simp
  then show ?thesis
    using s by simp
qed

lemma strip_trailing_zeros_length: "length (strip_trailing_zeros s) \<le> length s"
  by (simp add: strip_trailing_zeros_def length_dropWhile_le [of _ "rev s", simplified])

lemma strip_trailing_zeros_last:
  "strip_trailing_zeros s \<noteq> [] \<Longrightarrow> last (strip_trailing_zeros s) \<noteq> CHR ''0''"
  using hd_dropWhile [of "\<lambda>c. c = CHR ''0''" "rev s"]
  by (simp add: strip_trailing_zeros_def last_rev)

lemma strip_trailing_zeros_digits:
  "all_digits s \<Longrightarrow> all_digits (strip_trailing_zeros s)"
  using strip_trailing_zeros_pad [of s] by (metis all_digits_simps(3))

lemma strip_trailing_zeros_value:
  "digits_value s =
     digits_value (strip_trailing_zeros s) * 10 ^ (length s - length (strip_trailing_zeros s))"
  using digits_value_append [of "strip_trailing_zeros s"
      "replicate (length s - length (strip_trailing_zeros s)) CHR ''0''"]
  by (simp add: strip_trailing_zeros_pad)

lemma padEnd0_strip:
  "padEnd0 (strip_trailing_zeros s) (length s) = s"
  by (simp add: padEnd0_def strip_trailing_zeros_pad)


lemma pow10_nonneg: "0 \<le> d \<Longrightarrow> pow10 d = Inr (10 ^ nat d)"
  by (simp add: pow10_def)

lemma bigint_toString_nonneg: "0 \<le> n \<Longrightarrow> bigint_toString n = digits_toString n"
  by (simp add: bigint_toString_def)

lemma formatAmount_nonneg:
  assumes "0 \<le> amount" "0 \<le> d"
  shows "formatAmount amount d =
     Inr (if amount mod 10 ^ nat d = 0 then digits_toString (amount div 10 ^ nat d)
          else digits_toString (amount div 10 ^ nat d) @ ''.'' @
               strip_trailing_zeros (padStart0 (digits_toString (amount mod 10 ^ nat d)) (nat d)))"
proof -
  have "0 \<le> amount div 10 ^ nat d" "0 \<le> amount mod 10 ^ nat d"
    using assms by (simp_all add: pos_imp_zdiv_nonneg_iff)
  then show ?thesis
    using assms
    by (simp add: formatAmount_def pow10_nonneg bigint_div_nonneg bigint_rem_nonneg
        bigint_toString_nonneg Let_def)
qed

text \<open>The fractional digits written by \<open>formatAmount\<close>, before and after stripping.\<close>

lemma padded_fraction:
  assumes "0 \<le> f" "f < 10 ^ k" "0 < k"
  shows "length (padStart0 (digits_toString f) k) = k"
    and "all_digits (padStart0 (digits_toString f) k)"
    and "digits_value (padStart0 (digits_toString f) k) = f"
proof -
  have l: "length (digits_toString f) \<le> k"
    using assms by (rule digits_toString_length)
  then show "length (padStart0 (digits_toString f) k) = k"
    by (simp add: padStart0_def)
  show "all_digits (padStart0 (digits_toString f) k)"
    using assms digits_toString_props [of f] by (simp add: padStart0_def)
  show "digits_value (padStart0 (digits_toString f) k) = f"
    using assms digits_toString_props [of f] by (simp add: padStart0_def digits_value_append)
qed

lemma stripped_fraction:
  assumes "0 < f" "f < 10 ^ k"
  defines "fs \<equiv> strip_trailing_zeros (padStart0 (digits_toString f) k)"
  shows "fs \<noteq> []" and "last fs \<noteq> CHR ''0''" and "all_digits fs" and "length fs \<le> k"
    and "digits_value fs * 10 ^ (k - length fs) = f"
    and "padEnd0 fs k = padStart0 (digits_toString f) k"
proof -
  have k: "0 < k"
    using assms by (cases k) auto
  have f0: "0 \<le> f"
    using assms by simp
  note p = padded_fraction [OF f0 assms(2) k]
  have v: "f = digits_value fs * 10 ^ (k - length fs)"
    using strip_trailing_zeros_value [of "padStart0 (digits_toString f) k"] p
    by (simp add: fs_def)
  then show "digits_value fs * 10 ^ (k - length fs) = f"
    by simp
  show ne: "fs \<noteq> []"
    using v assms(1) by auto
  then show "last fs \<noteq> CHR ''0''"
    unfolding fs_def by (rule strip_trailing_zeros_last)
  show "all_digits fs"
    unfolding fs_def using p(2) by (rule strip_trailing_zeros_digits)
  show "length fs \<le> k"
    using strip_trailing_zeros_length [of "padStart0 (digits_toString f) k"] p(1)
    by (simp add: fs_def)
  show "padEnd0 fs k = padStart0 (digits_toString f) k"
    using padEnd0_strip [of "padStart0 (digits_toString f) k"] p(1)
    by (simp add: fs_def)
qed

text \<open>\<open>parseAmount\<close> past its early return, from the values of its local variables.\<close>

lemma parseAmount_parts:
  assumes "amount \<noteq> []" "amount \<noteq> ''0''"
    and "split CHR ''.'' amount = parts"
    and "BigInt_of_string (nth_or parts 0 ''0'') = Inr whole"
    and "(if int (length (nth_or parts 1 [])) > d then slice0 (nth_or parts 1 []) d
          else padEnd0 (nth_or parts 1 []) (nat d)) = fs"
    and "BigInt_of_string (if fs = [] then ''0'' else fs) = Inr fractional"
    and "0 \<le> d"
  shows "parseAmount amount d = Inr (whole * 10 ^ nat d + fractional)"
proof -
  have "parseAmount amount d =
      (case BigInt_of_string (nth_or parts 0 ''0'') of
         Inl e \<Rightarrow> Inl e
       | Inr whole \<Rightarrow>
           (case BigInt_of_string (if fs = [] then ''0'' else fs) of
              Inl e \<Rightarrow> Inl e
            | Inr fractional \<Rightarrow>
                (case pow10 d of
                   Inl e \<Rightarrow> Inl e
                 | Inr divisor \<Rightarrow> Inr (whole * divisor + fractional))))"
    unfolding parseAmount_def Let_def assms(3) assms(5)
    using assms(1,2) by (simp only: simp_thms if_False)
  then show ?thesis
    unfolding assms(4) assms(6) pow10_nonneg [OF assms(7)] by simp
qed

lemma BigInt_of_digits_or_0:
  "all_digits s \<Longrightarrow> BigInt_of_string (if s = [] then ''0'' else s) = Inr (digits_value s)"
  by (cases "s = []") (simp_all add: BigInt_of_digits)

lemma all_digits_take: "all_digits s \<Longrightarrow> all_digits (take n s)"
  by (auto simp: all_digits_def list_all_iff dest: in_set_takeD)

text \<open>What \<open>parseAmount\<close> computes on digits, a point, digits.\<close>

lemma parseAmount_point:
  assumes "all_digits w" "all_digits f" "0 \<le> d"
  shows "parseAmount (w @ ''.'' @ f) d =
     Inr (digits_value w * 10 ^ nat d +
          digits_value (if nat d < length f then take (nat d) f
                        else f @ replicate (nat d - length f) CHR ''0''))"
proof -
  let ?fs = "if nat d < length f then take (nat d) f else f @ replicate (nat d - length f) CHR ''0''"
  have ne: "w @ ''.'' @ f \<noteq> []" "w @ ''.'' @ f \<noteq> ''0''"
    by (cases w; simp)+
  have sp: "split CHR ''.'' (w @ ''.'' @ f) = [w, f]"
    using assms by (simp add: split_at_sep split_no_sep no_dot_in_digits)
  have "nth_or [w, f] 0 ''0'' = (if w = [] then ''0'' else w)"
    by (simp add: nth_or_def)
  then have wh: "BigInt_of_string (nth_or [w, f] 0 ''0'') = Inr (digits_value w)"
    by (simp only: BigInt_of_digits_or_0 [OF assms(1)])
  have n1: "nth_or [w, f] 1 [] = f"
    by (simp add: nth_or_def)
  have fr0: "(if int (length (nth_or [w, f] 1 [])) > d then slice0 (nth_or [w, f] 1 []) d
              else padEnd0 (nth_or [w, f] 1 []) (nat d)) = ?fs"
    unfolding n1 using assms(3) by (auto simp: slice0_def padEnd0_def)
  have "all_digits ?fs"
    using assms(2) by (simp add: all_digits_take)
  then have fr: "BigInt_of_string (if ?fs = [] then ''0'' else ?fs) = Inr (digits_value ?fs)"
    by (rule BigInt_of_digits_or_0)
  show ?thesis
    using parseAmount_parts [OF ne sp wh fr0 fr assms(3)] .
qed

lemma parseAmount_whole:
  assumes "all_digits w" "0 \<le> d"
  shows "parseAmount w d = Inr (digits_value w * 10 ^ nat d)"
proof (cases "w = [] \<or> w = ''0''")
  case True
  then show ?thesis
    by (auto simp: parseAmount_def)
next
  case False
  have sp: "split CHR ''.'' w = [w]"
    using assms by (simp add: split_no_sep no_dot_in_digits)
  have "nth_or [w] 0 ''0'' = (if w = [] then ''0'' else w)"
    by (simp add: nth_or_def)
  then have wh: "BigInt_of_string (nth_or [w] 0 ''0'') = Inr (digits_value w)"
    by (simp only: BigInt_of_digits_or_0 [OF assms(1)])
  have fr0: "(if int (length (nth_or [w] 1 [])) > d then slice0 (nth_or [w] 1 []) d
              else padEnd0 (nth_or [w] 1 []) (nat d)) = replicate (nat d) CHR ''0''"
    using assms(2) by (simp add: nth_or_def padEnd0_def)
  have fr: "BigInt_of_string (if replicate (nat d) CHR ''0'' = [] then ''0''
                              else replicate (nat d) CHR ''0'') = Inr 0"
    using BigInt_of_digits_or_0 [of "replicate (nat d) CHR ''0''"]
    by (simp only: all_digits_replicate0 digits_value_zeros simp_thms)
  show ?thesis
    using parseAmount_parts [OF _ _ sp wh fr0 fr assms(2)] False by simp
qed

text \<open>Dropping the last digits of a numeral divides its value by a power of ten.\<close>

lemma digits_value_take:
  assumes "all_digits f" "k \<le> length f"
  shows "digits_value (take k f) = digits_value f div 10 ^ (length f - k)"
proof -
  have d: "all_digits (drop k f)"
    using assms(1) by (auto simp: all_digits_def list_all_iff dest: in_set_dropD)
  have "digits_value f = digits_value (take k f) * 10 ^ length (drop k f) + digits_value (drop k f)"
    using digits_value_append [of "take k f" "drop k f"] by simp
  moreover have "0 \<le> digits_value (drop k f)" "digits_value (drop k f) < 10 ^ length (drop k f)"
    using digits_value_bounds [OF d] by simp_all
  ultimately have "digits_value f div 10 ^ length (drop k f) = digits_value (take k f)"
    by (simp add: div_pos_pos_trivial)
  then show ?thesis
    by simp
qed

lemma truncated_scaled_value:
  assumes "all_digits w" "all_digits f"
  shows "digits_value (w @ f) * 10 ^ k div 10 ^ length f =
     digits_value w * 10 ^ k +
     digits_value (if k < length f then take k f else f @ replicate (k - length f) CHR ''0'')"
proof (cases "k < length f")
  case True
  then have e: "(10::int) ^ length f = 10 ^ k * 10 ^ (length f - k)"
    by (simp flip: power_add)
  have "digits_value (w @ f) * 10 ^ k div 10 ^ length f =
      (digits_value w * 10 ^ length f + digits_value f) div 10 ^ (length f - k)"
    unfolding digits_value_append
    by (subst e) (simp add: mult.commute [of _ "10 ^ k"])
  also have "\<dots> = (digits_value f + digits_value w * 10 ^ k * 10 ^ (length f - k))
      div 10 ^ (length f - k)"
    by (subst e) (simp add: ac_simps)
  also have "\<dots> = digits_value w * 10 ^ k + digits_value f div 10 ^ (length f - k)"
    by (rule div_mult_self1) simp
  finally show ?thesis
    using True assms(2) by (simp add: digits_value_take)
next
  case False
  then have e: "(10::int) ^ k = 10 ^ (k - length f) * 10 ^ length f"
    by (simp flip: power_add)
  have "digits_value (w @ f) * 10 ^ k div 10 ^ length f = digits_value (w @ f) * 10 ^ (k - length f)"
    by (subst e) simp
  then show ?thesis
    using False by (simp add: digits_value_append algebra_simps e)
qed

lemma mod_pow10_pos:
  assumes "(x::int) mod 10 ^ k \<noteq> 0"
  shows "0 < x mod 10 ^ k" and "x mod 10 ^ k < 10 ^ k"
proof -
  have p: "(0::int) < 10 ^ k"
    by simp
  show "x mod 10 ^ k < 10 ^ k"
    using p by (rule pos_mod_bound)
  have "0 \<le> x mod 10 ^ k"
    using p by (rule pos_mod_sign)
  with assms show "0 < x mod 10 ^ k"
    by (rule_tac order.not_eq_order_implies_strict) auto
qed

text \<open>
  C7: for every amount \<open>\<ge> 0\<close> and every number of decimals \<open>d \<ge> 0\<close>, \<open>formatAmount\<close> returns
  the minimal decimal string of \<open>amount / 10 ^ d\<close>. Its integer part is the numeral of
  \<open>amount div 10 ^ d\<close>, digits only and without a leading zero unless it is "0". When the
  fractional part \<open>amount mod 10 ^ d\<close> is zero, that numeral is the whole result, with no
  decimal point. Otherwise a point follows and then the fractional digits: at most \<open>d\<close>,
  not empty, not ending in 0, and denoting the fractional part once padded back to \<open>d\<close>
  digits. \<open>formatAmount (10 ^ 18) 18\<close> is "1" and \<open>formatAmount (15 * 10 ^ 17) 18\<close> is "1.5".
\<close>

theorem formatAmount_minimal:
  assumes "0 \<le> amount" "0 \<le> d"
  shows "(\<exists>ip. all_digits ip \<and> ip \<noteq> [] \<and> (ip = ''0'' \<or> hd ip \<noteq> CHR ''0'') \<and>
            digits_value ip = amount div 10 ^ nat d \<and>
            (amount mod 10 ^ nat d = 0 \<longrightarrow> formatAmount amount d = Inr ip) \<and>
            (amount mod 10 ^ nat d \<noteq> 0 \<longrightarrow>
               (\<exists>fs. formatAmount amount d = Inr (ip @ ''.'' @ fs) \<and>
                  all_digits fs \<and> fs \<noteq> [] \<and> last fs \<noteq> CHR ''0'' \<and> length fs \<le> nat d \<and>
                  digits_value fs * 10 ^ (nat d - length fs) = amount mod 10 ^ nat d))) \<and>
         formatAmount 1000000000000000000 18 = Inr ''1'' \<and>
         formatAmount 1500000000000000000 18 = Inr ''1.5''"
proof (intro conjI)
  let ?D = "(10::int) ^ nat d"
  let ?ip = "digits_toString (amount div ?D)"
  let ?fs = "strip_trailing_zeros (padStart0 (digits_toString (amount mod ?D)) (nat d))"
  have w: "0 \<le> amount div ?D"
    using assms by (simp add: pos_imp_zdiv_nonneg_iff)
  note ip = digits_toString_props [OF w]
  have lead: "?ip = ''0'' \<or> hd ?ip \<noteq> CHR ''0''"
  proof (cases "amount div ?D = 0")
    case True
    then show ?thesis by (simp add: digits_toString_zero)
  next
    case False
    then show ?thesis using ip w by simp
  qed
  have frac: "\<exists>fs. formatAmount amount d = Inr (?ip @ ''.'' @ fs) \<and>
                  all_digits fs \<and> fs \<noteq> [] \<and> last fs \<noteq> CHR ''0'' \<and> length fs \<le> nat d \<and>
                  digits_value fs * 10 ^ (nat d - length fs) = amount mod ?D"
    if nz: "amount mod ?D \<noteq> 0"
  proof -
    note f = mod_pow10_pos [OF nz]
    have "formatAmount amount d = Inr (?ip @ ''.'' @ ?fs)"
      using nz by (simp add: formatAmount_nonneg [OF assms])
    then show ?thesis
      using stripped_fraction [OF f] by blast
  qed
  have whole: "formatAmount amount d = Inr ?ip" if "amount mod ?D = 0"
    using that by (simp add: formatAmount_nonneg [OF assms])
  show "\<exists>ip. all_digits ip \<and> ip \<noteq> [] \<and> (ip = ''0'' \<or> hd ip \<noteq> CHR ''0'') \<and>
            digits_value ip = amount div 10 ^ nat d \<and>
            (amount mod 10 ^ nat d = 0 \<longrightarrow> formatAmount amount d = Inr ip) \<and>
            (amount mod 10 ^ nat d \<noteq> 0 \<longrightarrow>
               (\<exists>fs. formatAmount amount d = Inr (ip @ ''.'' @ fs) \<and>
                  all_digits fs \<and> fs \<noteq> [] \<and> last fs \<noteq> CHR ''0'' \<and> length fs \<le> nat d \<and>
                  digits_value fs * 10 ^ (nat d - length fs) = amount mod 10 ^ nat d))"
    using ip lead frac whole by (intro exI [of _ ?ip]) simp
next
  show "formatAmount 1000000000000000000 18 = Inr ''1''"
    by code_simp
next
  show "formatAmount 1500000000000000000 18 = Inr ''1.5''"
    by code_simp
qed

theorem formatAmount_minimal_witness:
  "(0::int) \<le> 1050 \<and> (0::int) \<le> 3 \<and> formatAmount 1050 3 = Inr ''1.05'' \<and>
   formatAmount 2000 3 = Inr ''2''"
proof -
  have a: "(0::int) \<le> 1050" and b: "(0::int) \<le> 3" and c: "(0::int) \<le> 2000"
    by simp_all
  have "formatAmount 1050 3 = Inr ''1.05''" "formatAmount 2000 3 = Inr ''2''"
    by code_simp+
  then show ?thesis
    using formatAmount_minimal [OF a b] formatAmount_minimal [OF c b] by simp
qed

text \<open>
  C5: for every integer \<open>x \<ge> 0\<close> and every number of decimals \<open>d \<ge> 0\<close>, \<open>formatAmount\<close>
  returns a string, and \<open>parseAmount\<close> with the same \<open>d\<close> returns \<open>x\<close> on it.
\<close>

theorem parse_format_roundtrip:
  assumes "0 \<le> x" "0 \<le> d"
  shows "\<exists>s. formatAmount x d = Inr s \<and> parseAmount s d = Inr x"
proof -
  let ?D = "(10::int) ^ nat d"
  let ?ip = "digits_toString (x div ?D)"
  let ?P = "padStart0 (digits_toString (x mod ?D)) (nat d)"
  let ?fs = "strip_trailing_zeros ?P"
  have w: "0 \<le> x div ?D"
    using assms by (simp add: pos_imp_zdiv_nonneg_iff)
  note ip = digits_toString_props [OF w]
  show ?thesis
  proof (cases "x mod ?D = 0")
    case True
    then have "formatAmount x d = Inr ?ip"
      by (simp add: formatAmount_nonneg [OF assms])
    moreover have "parseAmount ?ip d = Inr (x div ?D * ?D)"
      using ip assms(2) by (simp add: parseAmount_whole)
    moreover have "x div ?D * ?D = x"
      using True by (simp add: mod_eq_0_iff_dvd)
    ultimately show ?thesis
      by simp
  next
    case False
    note f = mod_pow10_pos [OF False]
    note fs = stripped_fraction [OF f]
    have k: "0 < nat d"
      using f by (cases "nat d") auto
    have "formatAmount x d = Inr (?ip @ ''.'' @ ?fs)"
      using False by (simp add: formatAmount_nonneg [OF assms])
    moreover have "(if nat d < length ?fs then take (nat d) ?fs
                     else ?fs @ replicate (nat d - length ?fs) CHR ''0'') = ?P"
      using fs(4) fs(6) by (simp add: padEnd0_def)
    then have "parseAmount (?ip @ ''.'' @ ?fs) d = Inr (x div ?D * ?D + digits_value ?P)"
      using parseAmount_point [of ?ip ?fs d] ip fs(3) assms(2) by simp
    moreover have "digits_value ?P = x mod ?D"
      using padded_fraction(3) [of "x mod ?D" "nat d"] f k by simp
    moreover have "x div ?D * ?D + x mod ?D = x"
      by (rule div_mult_mod_eq)
    ultimately show ?thesis
      by simp
  qed
qed

theorem parse_format_roundtrip_witness:
  "(0::int) \<le> 1050 \<and> (0::int) \<le> 3 \<and> formatAmount 1050 3 = Inr ''1.05'' \<and>
   parseAmount ''1.05'' 3 = Inr 1050"
proof -
  have a: "(0::int) \<le> 1050" and b: "(0::int) \<le> 3"
    by simp_all
  have "formatAmount 1050 3 = Inr ''1.05''"
    by code_simp
  then show ?thesis
    using parse_format_roundtrip [OF a b] by simp
qed


text \<open>
  C6: on a decimal string, digits \<open>w\<close>, a point and digits \<open>f\<close>, with \<open>d \<ge> 0\<close> decimals,
  \<open>parseAmount\<close> returns the number \<open>w.f\<close> scaled by \<open>10 ^ d\<close> and rounded down, never up;
  fractional digits beyond the \<open>d\<close>-th do not change the result; fewer than \<open>d\<close>
  fractional digits are padded with zeros on the right; a string of digits without a
  point is scaled by \<open>10 ^ d\<close>; the empty string and "0" give 0 whatever the decimals;
  and \<open>parseAmount "1.5" 18\<close> is 1500000000000000000.
\<close>

theorem parseAmount_decimal_string:
  assumes "all_digits w" "all_digits f" "0 \<le> d"
  shows "parseAmount (w @ ''.'' @ f) d =
           Inr (digits_value (w @ f) * 10 ^ nat d div 10 ^ length f) \<and>
         (nat d < length f \<longrightarrow>
            parseAmount (w @ ''.'' @ f) d = parseAmount (w @ ''.'' @ take (nat d) f) d) \<and>
         (length f \<le> nat d \<longrightarrow>
            parseAmount (w @ ''.'' @ f) d =
              Inr (digits_value w * 10 ^ nat d + digits_value f * 10 ^ (nat d - length f))) \<and>
         parseAmount w d = Inr (digits_value w * 10 ^ nat d) \<and>
         parseAmount [] d' = Inr 0 \<and>
         parseAmount ''0'' d' = Inr 0 \<and>
         parseAmount ''1.5'' 18 = Inr 1500000000000000000"
proof (intro conjI impI)
  note pt = parseAmount_point [OF assms]
  show "parseAmount (w @ ''.'' @ f) d = Inr (digits_value (w @ f) * 10 ^ nat d div 10 ^ length f)"
    using pt by (simp only: truncated_scaled_value [OF assms(1,2)])
  show "parseAmount (w @ ''.'' @ f) d = parseAmount (w @ ''.'' @ take (nat d) f) d"
    if "nat d < length f"
  proof -
    have "parseAmount (w @ ''.'' @ take (nat d) f) d =
        Inr (digits_value w * 10 ^ nat d + digits_value (take (nat d) f))"
      using parseAmount_point [OF assms(1) all_digits_take [OF assms(2)] assms(3), of "nat d"] that
      by simp
    then show ?thesis
      using pt that by simp
  qed
  show "parseAmount (w @ ''.'' @ f) d =
      Inr (digits_value w * 10 ^ nat d + digits_value f * 10 ^ (nat d - length f))"
    if "length f \<le> nat d"
    using pt that by (simp add: digits_value_append)
  show "parseAmount w d = Inr (digits_value w * 10 ^ nat d)"
    using assms(1,3) by (rule parseAmount_whole)
  show "parseAmount [] d' = Inr 0" "parseAmount ''0'' d' = Inr 0"
    by (simp_all add: parseAmount_def)
  show "parseAmount ''1.5'' 18 = Inr 1500000000000000000"
    by code_simp
qed

theorem parseAmount_decimal_string_witness:
  "all_digits ''1'' \<and> all_digits ''239'' \<and> (0::int) \<le> 2 \<and> nat 2 < length ''239'' \<and>
   parseAmount ''1.239'' 2 = Inr 123 \<and>
   all_digits ''5'' \<and> (0::int) \<le> 3 \<and> length ''5'' \<le> nat 3 \<and> parseAmount ''1.5'' 3 = Inr 1500"
proof -
  have a: "all_digits ''1''" and b: "all_digits ''239''" and c: "all_digits ''5''"
    by (simp_all add: is_digit_def)
  have d: "(0::int) \<le> 2" and e: "(0::int) \<le> 3"
    by simp_all
  have v: "digits_value ''1'' = 1" "digits_value ''5'' = 5" "digits_value ''1239'' = 1239"
    "digits_value ''15'' = 15"
    by (simp_all add: digits_value_def digit_val_def)
  show ?thesis
    using parseAmount_decimal_string [OF a b d] parseAmount_decimal_string [OF a c e] a b c v
    by simp
qed

end
